theory Spec2Isabelle
  imports Main "HOL-Library.Char_ord" "HOL-Library.List_Lexorder"
begin

section \<open>Calibration entries of \<^verbatim>\<open>qiskit/pulse/calibration_entries.py\<close>\<close>

text \<open>
  The module defines three calibration entries behind one contract
  (\<^verbatim>\<open>define\<close>, \<^verbatim>\<open>get_signature\<close>, \<^verbatim>\<open>get_schedule\<close>):
  \<^verbatim>\<open>ScheduleDef\<close> (the specification's InlineDefinition),
  \<^verbatim>\<open>CallableDef\<close> (CallbackDefinition) and \<^verbatim>\<open>PulseQobjDef\<close>
  (DeferredSequenceDefinition, a subclass of \<^verbatim>\<open>ScheduleDef\<close>).

  Entries are Python objects whose methods mutate the entry and the schedule objects they
  hold. The embedding passes state explicitly: an entry is a record of its attributes, the
  schedule objects live in a store (\<open>world\<close>) and are named by their addresses, and every
  method returns its outcome together with the updated entry and store. A raised exception
  is the \<open>Inl\<close> of a sum; the state a method had written before it raised is kept.
\<close>

subsection \<open>Python values, exceptions, the publisher tag\<close>

text \<open>Values a caller passes as arguments: opaque to the module, apart from the tuple and
  the dict that \<^verbatim>\<open>inspect\<close> builds for \<^verbatim>\<open>*args\<close> and \<^verbatim>\<open>**kwargs\<close>.\<close>

datatype pyval = IntV int | StrV string | TupleV "pyval list" | DictV "(string \<times> pyval) list"

text \<open>\<^verbatim>\<open>class CalibrationPublisher(IntEnum)\<close>. The specification calls \<open>QISKIT\<close> the
  tag NATIVE and \<open>EXPERIMENT_SERVICE\<close> the tag EXTERNAL_SERVICE.\<close>

datatype CalibrationPublisher = BACKEND_PROVIDER | QISKIT | EXPERIMENT_SERVICE

text \<open>The four \<^verbatim>\<open>PulseError\<close> messages of the module:
  \<^item> \<open>ArgumentsMustBeNames\<close>: "Arguments must be name of parameters." (InvalidArgument);
  \<^item> \<open>ArgumentsDontMatch\<close>: "Specified arguments don't match with schedule parameters."
    (ArgumentMismatch);
  \<^item> \<open>AssignedDoesntMatchSchedule\<close>: "Assigned parameter doesn't match with schedule
    parameters." (BindingError of \<^verbatim>\<open>ScheduleDef\<close>);
  \<^item> \<open>AssignedDoesntMatchFunction\<close>: "Assigned parameter doesn't match with function
    signature." (BindingError of \<^verbatim>\<open>CallableDef\<close>).
  The other exceptions are the interpreter's and the standard library's.\<close>

datatype pulse_msg =
  ArgumentsMustBeNames | ArgumentsDontMatch | AssignedDoesntMatchSchedule | AssignedDoesntMatchFunction

datatype error = PulseError pulse_msg | TypeError | AttributeError | ValueError | IndexError

type_synonym 'a result = "error + 'a"

subsection \<open>The schedule collaborator\<close>

text \<open>
  Modelled from the spec: \<^verbatim>\<open>qiskit.pulse.schedule.Schedule\<close> and the instructions it
  holds are not among the sources. The specification gives the contract: a schedule-like
  value exposes a name, a mutable string-keyed metadata mapping, a set of named parameters
  discoverable by introspection, an insertion at a start offset that keeps the order of
  insertion among equal offsets, and \<^verbatim>\<open>assign(name -> value, in_place)\<close>, which returns
  a schedule-like value in which a parameter is either still declared or replaced by its
  value. A \<open>parameter\<close> is an object with a name; two parameters may share a name.
\<close>

datatype parameter = Parameter (param_name: string) (param_uuid: nat)

datatype operand = Symbolic parameter | Concrete pyval

datatype instruction = Instruction (inst_name: string) (inst_operands: "operand list")

datatype metaval = Publisher CalibrationPublisher | Meta string

record schedule =
  sched_name :: "string option"
  metadata :: "string \<rightharpoonup> metaval"
  instructions :: "(nat \<times> instruction) list"

fun operand_parameters :: "operand \<Rightarrow> parameter list" where
  "operand_parameters (Symbolic p) = [p]"
| "operand_parameters (Concrete v) = []"

definition instruction_parameters :: "instruction \<Rightarrow> parameter list" where
  "instruction_parameters i = concat (map operand_parameters (inst_operands i))"

text \<open>\<^verbatim>\<open>schedule.parameters\<close>: a Python set, here a list without repetition. The module
  reads it through \<^verbatim>\<open>set(...)\<close> and through a loop that fills a dict, so the order of
  the list is never observed.\<close>

definition parameters :: "schedule \<Rightarrow> parameter list" where
  "parameters s = remdups (concat (map (\<lambda>(t, i). instruction_parameters i) (instructions s)))"

fun assign_operand :: "(parameter \<rightharpoonup> pyval) \<Rightarrow> operand \<Rightarrow> operand" where
  "assign_operand vd (Symbolic p) = (case vd p of Some v \<Rightarrow> Concrete v | None \<Rightarrow> Symbolic p)"
| "assign_operand vd (Concrete v) = Concrete v"

definition assign_instruction :: "(parameter \<rightharpoonup> pyval) \<Rightarrow> instruction \<Rightarrow> instruction" where
  "assign_instruction vd i = Instruction (inst_name i) (map (assign_operand vd) (inst_operands i))"

definition assign_schedule :: "(parameter \<rightharpoonup> pyval) \<Rightarrow> schedule \<Rightarrow> schedule" where
  "assign_schedule vd s =
     s\<lparr>instructions := map (\<lambda>(t, i). (t, assign_instruction vd i)) (instructions s)\<rparr>"

text \<open>The stable insertion at a start offset: after every instruction that starts no later.\<close>

fun insert_at :: "nat \<Rightarrow> instruction \<Rightarrow> (nat \<times> instruction) list \<Rightarrow> (nat \<times> instruction) list" where
  "insert_at t i [] = [(t, i)]"
| "insert_at t i ((t', i') # xs) =
     (if t < t' then (t, i) # (t', i') # xs else (t', i') # insert_at t i xs)"

subsection \<open>The store of schedule objects\<close>

text \<open>
  Schedules are mutable objects that an entry shares with its caller, so they live in a
  store: \<open>objs\<close> gives the object at an address, and the addresses below \<open>next_addr\<close> are
  the allocated ones. \<open>log\<close> is an observation trace that the source does not have: one
  \<open>Build\<close> for each run of \<^verbatim>\<open>PulseQobjDef._build_schedule\<close> and one \<open>Invoke\<close> for each
  run of the body of a function that a \<^verbatim>\<open>CallableDef\<close> calls, with the function's
  identity and the values its parameters received. The trace is only ever appended to and
  no method reads it.
\<close>

type_synonym addr = nat

datatype event = Build | Invoke nat "(string \<times> pyval) list"

record world =
  objs :: "addr \<Rightarrow> schedule"
  next_addr :: addr
  log :: "event list"

text \<open>\<^verbatim>\<open>Schedule(name=...)\<close>: a new, empty schedule object with empty metadata.\<close>

definition Schedule_new :: "string option \<Rightarrow> world \<Rightarrow> addr \<times> world" where
  "Schedule_new nm w =
     (next_addr w,
      w\<lparr>objs := (objs w)(next_addr w := \<lparr>sched_name = nm, metadata = Map.empty, instructions = []\<rparr>),
        next_addr := Suc (next_addr w)\<rparr>)"

text \<open>\<^verbatim>\<open>schedule.insert(t0, inst, inplace=True)\<close>.\<close>

definition Schedule_insert :: "addr \<Rightarrow> nat \<Rightarrow> instruction \<Rightarrow> world \<Rightarrow> world" where
  "Schedule_insert a t i w =
     w\<lparr>objs := (objs w)(a := (objs w a)\<lparr>instructions := insert_at t i (instructions (objs w a))\<rparr>)\<rparr>"

text \<open>\<^verbatim>\<open>schedule.metadata[key] = value\<close>.\<close>

definition metadata_setitem :: "addr \<Rightarrow> string \<Rightarrow> metaval \<Rightarrow> world \<Rightarrow> world" where
  "metadata_setitem a k v w =
     w\<lparr>objs := (objs w)(a := (objs w a)\<lparr>metadata := (metadata (objs w a))(k \<mapsto> v)\<rparr>)\<rparr>"

text \<open>\<^verbatim>\<open>schedule.assign_parameters(value_dict, inplace)\<close>: in place it overwrites the
  object and returns it; otherwise it allocates the assigned copy and leaves the object
  alone.\<close>

definition assign_parameters :: "addr \<Rightarrow> (parameter \<rightharpoonup> pyval) \<Rightarrow> bool \<Rightarrow> world \<Rightarrow> addr \<times> world" where
  "assign_parameters a vd inplace w =
     (if inplace then (a, w\<lparr>objs := (objs w)(a := assign_schedule vd (objs w a))\<rparr>)
      else (next_addr w,
            w\<lparr>objs := (objs w)(next_addr w := assign_schedule vd (objs w a)),
              next_addr := Suc (next_addr w)\<rparr>))"

subsection \<open>Signatures of the \<^verbatim>\<open>inspect\<close> module\<close>

text \<open>
  \<^verbatim>\<open>inspect.Parameter\<close> (name, kind, default; \<open>None\<close> is \<^verbatim>\<open>Parameter.empty\<close>) and
  \<^verbatim>\<open>inspect.Signature\<close> (the ordered parameters) of the Python standard library.
  Annotations are not modelled: nothing in the module reads them.
\<close>

datatype kind = POSITIONAL_ONLY | POSITIONAL_OR_KEYWORD | VAR_POSITIONAL | KEYWORD_ONLY | VAR_KEYWORD

datatype sig_parameter =
  SigParameter (sp_name: string) (sp_kind: kind) (sp_default: "pyval option")

type_synonym signature = "sig_parameter list"

text \<open>
  \<^verbatim>\<open>str.isidentifier\<close>, \<^verbatim>\<open>str.isdigit\<close> and \<^verbatim>\<open>keyword.iskeyword\<close> on names. A
  character of a string is a code point below 256. Among these, the characters that may
  start an identifier are the letters \<open>A\<close> to \<open>Z\<close> and \<open>a\<close> to \<open>z\<close>, the underscore, and
  the letters of Latin-1 (170, 181, 186, 192 to 214, 216 to 246, 248 to 255); an identifier
  continues with these, the digits \<open>0\<close> to \<open>9\<close> and the middle dot (183). The characters
  on which \<^verbatim>\<open>str.isdigit\<close> holds are the digits \<open>0\<close> to \<open>9\<close> and the superscript digits
  (178, 179, 185). The keywords are the 35 of \<^verbatim>\<open>keyword.kwlist\<close>.
\<close>

definition is_identifier_start :: "char \<Rightarrow> bool" where
  "is_identifier_start c \<longleftrightarrow>
     (let n = (of_char c :: nat) in
        (65 \<le> n \<and> n \<le> 90) \<or> n = 95 \<or> (97 \<le> n \<and> n \<le> 122) \<or>
        n = 170 \<or> n = 181 \<or> n = 186 \<or>
        (192 \<le> n \<and> n \<le> 214) \<or> (216 \<le> n \<and> n \<le> 246) \<or> (248 \<le> n \<and> n \<le> 255))"

definition is_identifier_continue :: "char \<Rightarrow> bool" where
  "is_identifier_continue c \<longleftrightarrow>
     (let n = (of_char c :: nat) in
        is_identifier_start c \<or> (48 \<le> n \<and> n \<le> 57) \<or> n = 183)"

definition is_digit :: "char \<Rightarrow> bool" where
  "is_digit c \<longleftrightarrow>
     (let n = (of_char c :: nat) in (48 \<le> n \<and> n \<le> 57) \<or> n = 178 \<or> n = 179 \<or> n = 185)"

definition isidentifier :: "string \<Rightarrow> bool" where
  "isidentifier s =
     (case s of
        [] \<Rightarrow> False
      | c # cs \<Rightarrow> is_identifier_start c \<and> list_all is_identifier_continue cs)"

definition isdigit :: "string \<Rightarrow> bool" where
  "isdigit s \<longleftrightarrow> s \<noteq> [] \<and> list_all is_digit s"

definition iskeyword :: "string \<Rightarrow> bool" where
  "iskeyword s \<longleftrightarrow>
     s \<in> set [''False'', ''None'', ''True'', ''and'', ''as'', ''assert'', ''async'', ''await'',
              ''break'', ''class'', ''continue'', ''def'', ''del'', ''elif'', ''else'', ''except'',
              ''finally'', ''for'', ''from'', ''global'', ''if'', ''import'', ''in'', ''is'',
              ''lambda'', ''nonlocal'', ''not'', ''or'', ''pass'', ''raise'', ''return'', ''try'',
              ''while'', ''with'', ''yield'']"

text \<open>A name that \<^verbatim>\<open>inspect.Parameter\<close> accepts as it is: an identifier that is no
  keyword.\<close>

definition valid_name :: "string \<Rightarrow> bool" where
  "valid_name s \<longleftrightarrow> isidentifier s \<and> \<not> iskeyword s"

text \<open>
  \<^verbatim>\<open>inspect.Parameter(name, kind)\<close>, without a default. \<^verbatim>\<open>name[0]\<close> on the empty
  name raises \<^verbatim>\<open>IndexError\<close>. A name \<^verbatim>\<open>.N\<close> (a dot and digits) is the implicit
  argument of a comprehension: it is renamed \<^verbatim>\<open>implicitN\<close> and made positional-only,
  and refused for any kind but positional-or-keyword. A keyword (unless the parameter is
  positional-only) or a name that is no identifier raises \<^verbatim>\<open>ValueError\<close>.
\<close>

definition Parameter_checked :: "string \<Rightarrow> kind \<Rightarrow> sig_parameter result" where
  "Parameter_checked name kind =
     (if (iskeyword name \<and> kind \<noteq> POSITIONAL_ONLY) \<or> \<not> isidentifier name then Inl ValueError
      else Inr (SigParameter name kind None))"

definition Parameter_new :: "string \<Rightarrow> kind \<Rightarrow> sig_parameter result" where
  "Parameter_new name kind =
     (case name of
        [] \<Rightarrow> Inl IndexError
      | c # cs \<Rightarrow>
          (if c = CHR ''.'' \<and> isdigit cs then
             (if kind \<noteq> POSITIONAL_OR_KEYWORD then Inl ValueError
              else Parameter_checked (''implicit'' @ cs) POSITIONAL_ONLY)
           else Parameter_checked name kind))"

text \<open>
  \<^verbatim>\<open>inspect.Signature(parameters=params)\<close> validates its parameters and raises
  \<^verbatim>\<open>ValueError\<close> when a kind comes after a kind of higher rank or when a name is
  repeated. (It also refuses a parameter without a default after one with a default; the
  one caller in this module passes parameters without defaults.)
\<close>

fun kind_rank :: "kind \<Rightarrow> nat" where
  "kind_rank POSITIONAL_ONLY = 0"
| "kind_rank POSITIONAL_OR_KEYWORD = 1"
| "kind_rank VAR_POSITIONAL = 2"
| "kind_rank KEYWORD_ONLY = 3"
| "kind_rank VAR_KEYWORD = 4"

definition Signature_new :: "sig_parameter list \<Rightarrow> signature result" where
  "Signature_new params =
     (if sorted (map (\<lambda>p. kind_rank (sp_kind p)) params) \<and> distinct (map sp_name params)
      then Inr params else Inl ValueError)"

text \<open>
  \<^verbatim>\<open>Signature._bind(args, kwargs, partial)\<close>, the body of \<^verbatim>\<open>bind\<close> and
  \<^verbatim>\<open>bind_partial\<close>, in its two loops. The first walks the positional arguments along
  the parameters and returns the arguments bound so far with the parameters still to be
  bound by keyword; the second binds those from \<open>kwargs\<close>, popping each keyword it uses.
  \<open>Inl TypeError\<close> is the \<^verbatim>\<open>TypeError\<close> that \<^verbatim>\<open>_bind\<close> raises. The result is
  \<^verbatim>\<open>BoundArguments.arguments\<close>, an ordered dict, as an association list.
\<close>

fun bind_positional ::
  "bool \<Rightarrow> sig_parameter list \<Rightarrow> pyval list \<Rightarrow> (string \<times> pyval) list \<Rightarrow> (string \<times> pyval) list
     \<Rightarrow> ((string \<times> pyval) list \<times> sig_parameter list) result" where
  "bind_positional partial [] [] kwargs acc = Inr (acc, [])"
| "bind_positional partial (p # ps) [] kwargs acc =
     (if sp_kind p = VAR_POSITIONAL then Inr (acc, ps)
      else if sp_name p \<in> set (map fst kwargs) then
        (if sp_kind p = POSITIONAL_ONLY then Inl TypeError else Inr (acc, p # ps))
      else if sp_kind p = VAR_KEYWORD \<or> sp_default p \<noteq> None then Inr (acc, p # ps)
      else if partial then Inr (acc, p # ps)
      else Inl TypeError)"
| "bind_positional partial [] (a # as) kwargs acc = Inl TypeError"
| "bind_positional partial (p # ps) (a # as) kwargs acc =
     (if sp_kind p = VAR_KEYWORD \<or> sp_kind p = KEYWORD_ONLY then Inl TypeError
      else if sp_kind p = VAR_POSITIONAL then Inr (acc @ [(sp_name p, TupleV (a # as))], ps)
      else if sp_name p \<in> set (map fst kwargs) \<and> sp_kind p \<noteq> POSITIONAL_ONLY then Inl TypeError
      else bind_positional partial ps as kwargs (acc @ [(sp_name p, a)]))"

fun bind_keywords ::
  "bool \<Rightarrow> sig_parameter list \<Rightarrow> (string \<times> pyval) list \<Rightarrow> (string \<times> pyval) list
     \<Rightarrow> sig_parameter option \<Rightarrow> (string \<times> pyval) list result" where
  "bind_keywords partial [] kwargs acc kwargs_param =
     (if kwargs = [] then Inr acc
      else case kwargs_param of
             Some kp \<Rightarrow> Inr (acc @ [(sp_name kp, DictV kwargs)])
           | None \<Rightarrow> Inl TypeError)"
| "bind_keywords partial (p # ps) kwargs acc kwargs_param =
     (if sp_kind p = VAR_KEYWORD then bind_keywords partial ps kwargs acc (Some p)
      else if sp_kind p = VAR_POSITIONAL then bind_keywords partial ps kwargs acc kwargs_param
      else case map_of kwargs (sp_name p) of
             None \<Rightarrow>
               (if \<not> partial \<and> sp_default p = None then Inl TypeError
                else bind_keywords partial ps kwargs acc kwargs_param)
           | Some v \<Rightarrow>
               (if sp_kind p = POSITIONAL_ONLY then Inl TypeError
                else bind_keywords partial ps (filter (\<lambda>kv. fst kv \<noteq> sp_name p) kwargs)
                       (acc @ [(sp_name p, v)]) kwargs_param))"

definition bind_common ::
  "bool \<Rightarrow> signature \<Rightarrow> pyval list \<Rightarrow> (string \<times> pyval) list \<Rightarrow> (string \<times> pyval) list result" where
  "bind_common partial sg args kwargs =
     (case bind_positional partial sg args kwargs [] of
        Inl e \<Rightarrow> Inl e
      | Inr (acc, rest) \<Rightarrow> bind_keywords partial rest kwargs acc None)"

definition bind :: "signature \<Rightarrow> pyval list \<Rightarrow> (string \<times> pyval) list \<Rightarrow> (string \<times> pyval) list result" where
  "bind sg args kwargs = bind_common False sg args kwargs"

definition bind_partial :: "signature \<Rightarrow> pyval list \<Rightarrow> (string \<times> pyval) list \<Rightarrow> (string \<times> pyval) list result" where
  "bind_partial sg args kwargs = bind_common True sg args kwargs"

subsection \<open>\<^verbatim>\<open>ScheduleDef\<close>\<close>

text \<open>The attributes \<^verbatim>\<open>_user_arguments\<close>, \<^verbatim>\<open>_definition\<close> and \<^verbatim>\<open>_signature\<close>; the
  option is Python's \<^verbatim>\<open>None\<close>. \<^verbatim>\<open>_definition\<close> holds the address of the schedule
  object. The record is extensible, as the class is: \<^verbatim>\<open>PulseQobjDef\<close> extends it and
  inherits the methods, which are therefore written over the record scheme.\<close>

record schedule_def =
  user_arguments' :: "string list option"
  definition' :: "addr option"
  signature' :: "signature option"

text \<open>\<^verbatim>\<open>ScheduleDef.__init__(arguments)\<close>. The argument names are strings by their type,
  so the \<^verbatim>\<open>PulseError\<close> for a name that is not a string cannot be raised here. A
  non-empty sequence is copied into a list; \<^verbatim>\<open>None\<close> or an empty one is stored as it
  is.\<close>

definition ScheduleDef_init :: "string list option \<Rightarrow> schedule_def" where
  "ScheduleDef_init arguments =
     \<lparr>user_arguments' = arguments, definition' = None, signature' = None\<rparr>"

text \<open>The loop of \<^verbatim>\<open>_parse_argument\<close> that makes one positional-or-keyword
  \<^verbatim>\<open>inspect.Parameter\<close> for each argument name, in order; the first name that is
  refused raises.\<close>

fun make_parameters :: "string list \<Rightarrow> sig_parameter list result" where
  "make_parameters [] = Inr []"
| "make_parameters (argname # argnames) =
     (case Parameter_new argname POSITIONAL_OR_KEYWORD of
        Inl e \<Rightarrow> Inl e
      | Inr param \<Rightarrow>
          (case make_parameters argnames of
             Inl e \<Rightarrow> Inl e
           | Inr params \<Rightarrow> Inr (param # params)))"

text \<open>\<^verbatim>\<open>ScheduleDef._parse_argument\<close>. \<^verbatim>\<open>if self._user_arguments:\<close> is Python's truth
  test: \<^verbatim>\<open>None\<close> and the empty list both take the \<^verbatim>\<open>else\<close> branch.\<close>

definition parse_argument ::
  "'a schedule_def_scheme \<Rightarrow> world \<Rightarrow> 'a schedule_def_scheme result" where
  "parse_argument self w =
     (case definition' self of
        None \<Rightarrow> Inl AttributeError
      | Some d \<Rightarrow>
          (let all_argnames = map param_name (parameters (objs w d));
               argnames =
                 (case user_arguments' self of
                    Some (u # us) \<Rightarrow>
                      (if set (u # us) \<noteq> set all_argnames then Inl (PulseError ArgumentsDontMatch)
                       else Inr (u # us))
                  | _ \<Rightarrow> Inr (sort (remdups all_argnames)))
           in case argnames of
                Inl e \<Rightarrow> Inl e
              | Inr names \<Rightarrow>
                  (case make_parameters names of
                     Inl e \<Rightarrow> Inl e
                   | Inr params \<Rightarrow>
                       (case Signature_new params of
                          Inl e \<Rightarrow> Inl e
                        | Inr sg \<Rightarrow> Inr (self\<lparr>signature' := Some sg\<rparr>)))))"

text \<open>\<^verbatim>\<open>ScheduleDef.define(definition)\<close>: stores the object, tags it if it has no
  publisher yet, and derives the signature. When \<^verbatim>\<open>_parse_argument\<close> raises, the first
  two effects stay.\<close>

definition ScheduleDef_define ::
  "'a schedule_def_scheme \<Rightarrow> addr \<Rightarrow> world \<Rightarrow> unit result \<times> 'a schedule_def_scheme \<times> world" where
  "ScheduleDef_define self d w =
     (let self1 = self\<lparr>definition' := Some d\<rparr>;
          w1 = (if metadata (objs w d) ''publisher'' = None
                then metadata_setitem d ''publisher'' (Publisher QISKIT) w else w)
      in case parse_argument self1 w1 of
           Inl e \<Rightarrow> (Inl e, self1, w1)
         | Inr self2 \<Rightarrow> (Inr (), self2, w1))"

text \<open>
  A method takes the entry and the store and returns its outcome with the entry and the
  store as it left them. \<^verbatim>\<open>ScheduleDef.get_schedule\<close> and \<^verbatim>\<open>ScheduleDef.__str__\<close>
  call \<^verbatim>\<open>self.get_signature()\<close>, which Python resolves in the class of the object: for
  a \<^verbatim>\<open>PulseQobjDef\<close> it is the overriding method. The two bodies therefore take the
  \<^verbatim>\<open>get_signature\<close> of the object's class as their first argument.
\<close>

type_synonym ('s, 'r) py_method = "'s \<Rightarrow> world \<Rightarrow> 'r result \<times> 's \<times> world"

text \<open>\<^verbatim>\<open>ScheduleDef.get_signature\<close>: the attribute, \<^verbatim>\<open>None\<close> before a signature was
  derived.\<close>

definition ScheduleDef_get_signature :: "('a schedule_def_scheme, signature option) py_method" where
  "ScheduleDef_get_signature self w = (Inr (signature' self), self, w)"

text \<open>The loop of \<^verbatim>\<open>get_schedule\<close> over \<^verbatim>\<open>self._definition.parameters\<close>: a parameter
  whose name is a key of the bound arguments gets that value; a \<^verbatim>\<open>KeyError\<close> is
  passed over.\<close>

fun fill_value_dict ::
  "parameter list \<Rightarrow> (string \<times> pyval) list \<Rightarrow> (parameter \<rightharpoonup> pyval) \<Rightarrow> (parameter \<rightharpoonup> pyval)" where
  "fill_value_dict [] arguments value_dict = value_dict"
| "fill_value_dict (param # params) arguments value_dict =
     (case map_of arguments (param_name param) of
        Some v \<Rightarrow> fill_value_dict params arguments (value_dict(param \<mapsto> v))
      | None \<Rightarrow> fill_value_dict params arguments value_dict)"

text \<open>The body of \<^verbatim>\<open>ScheduleDef.get_schedule(*args, **kwargs)\<close>. The result is the
  address of a schedule object, or \<^verbatim>\<open>None\<close> when nothing was defined and nothing is
  bound. With arguments, an entry without a signature or a definition raises
  \<^verbatim>\<open>AttributeError\<close> on the attribute access on \<^verbatim>\<open>None\<close>.\<close>

definition ScheduleDef_get_schedule_body ::
  "('a schedule_def_scheme, signature option) py_method \<Rightarrow> 'a schedule_def_scheme \<Rightarrow> pyval list
     \<Rightarrow> (string \<times> pyval) list \<Rightarrow> world \<Rightarrow> addr option result \<times> 'a schedule_def_scheme \<times> world" where
  "ScheduleDef_get_schedule_body get_signature self args kwargs w =
     (if args = [] \<and> kwargs = [] then (Inr (definition' self), self, w)
      else case get_signature self w of
             (Inl e, self1, w1) \<Rightarrow> (Inl e, self1, w1)
           | (Inr None, self1, w1) \<Rightarrow> (Inl AttributeError, self1, w1)
           | (Inr (Some sg), self1, w1) \<Rightarrow>
               (case bind_partial sg args kwargs of
                  Inl e \<Rightarrow> (Inl (PulseError AssignedDoesntMatchSchedule), self1, w1)
                | Inr to_bind \<Rightarrow>
                    (case definition' self1 of
                       None \<Rightarrow> (Inl AttributeError, self1, w1)
                     | Some d \<Rightarrow>
                         (let value_dict = fill_value_dict (parameters (objs w1 d)) to_bind Map.empty;
                              (r, w2) = assign_parameters d value_dict False w1
                          in (Inr (Some r), self1, w2)))))"

text \<open>\<^verbatim>\<open>get_schedule\<close> of an object of the class \<^verbatim>\<open>ScheduleDef\<close> itself.\<close>

definition ScheduleDef_get_schedule ::
  "schedule_def \<Rightarrow> pyval list \<Rightarrow> (string \<times> pyval) list \<Rightarrow> world
     \<Rightarrow> addr option result \<times> schedule_def \<times> world" where
  "ScheduleDef_get_schedule = ScheduleDef_get_schedule_body ScheduleDef_get_signature"

text \<open>\<^verbatim>\<open>", ".join(names)\<close> and the body of \<^verbatim>\<open>ScheduleDef.__str__\<close>. An f-string
  renders the name \<^verbatim>\<open>None\<close> as the word.\<close>

fun join :: "string \<Rightarrow> string list \<Rightarrow> string" where
  "join sep [] = []"
| "join sep [x] = x"
| "join sep (x # y # ys) = x @ sep @ join sep (y # ys)"

definition ScheduleDef_str_body ::
  "('a schedule_def_scheme, signature option) py_method \<Rightarrow> ('a schedule_def_scheme, string) py_method" where
  "ScheduleDef_str_body get_signature self w =
     (case definition' self of
        None \<Rightarrow> (Inl AttributeError, self, w)
      | Some d \<Rightarrow>
          (let out = ''Schedule '' @ (case sched_name (objs w d) of None \<Rightarrow> ''None'' | Some n \<Rightarrow> n)
           in case get_signature self w of
                (Inl e, self1, w1) \<Rightarrow> (Inl e, self1, w1)
              | (Inr None, self1, w1) \<Rightarrow> (Inl AttributeError, self1, w1)
              | (Inr (Some sg), self1, w1) \<Rightarrow>
                  (let params_str = join '', '' (map sp_name sg)
                   in (Inr (if params_str \<noteq> [] then out @ ''('' @ params_str @ '')'' else out),
                       self1, w1))))"

definition ScheduleDef_str :: "(schedule_def, string) py_method" where
  "ScheduleDef_str = ScheduleDef_str_body ScheduleDef_get_signature"

subsection \<open>\<^verbatim>\<open>CallableDef\<close>\<close>

text \<open>
  A Python function: its identity (\<^verbatim>\<open>is\<close> compares it), its \<^verbatim>\<open>__name__\<close>, the
  signature that \<^verbatim>\<open>inspect.signature\<close> reads from its declaration, and its body, which
  receives the values of its parameters and returns a schedule object, allocating in the
  store as it pleases.
\<close>

record callable =
  fn_id :: nat
  fn_name :: string
  fn_signature :: signature
  fn_body :: "(string \<times> pyval) list \<Rightarrow> world \<Rightarrow> addr \<times> world"

text \<open>
  The call \<^verbatim>\<open>f(**kwargs)\<close> as the interpreter binds it. A keyword names a
  positional-or-keyword or a keyword-only parameter; any other keyword goes to the
  \<^verbatim>\<open>**\<close> parameter, and without one the call raises \<^verbatim>\<open>TypeError\<close>. A parameter with
  no keyword takes its default, and without one the call raises \<^verbatim>\<open>TypeError\<close>; the
  \<^verbatim>\<open>*\<close> parameter is the empty tuple. When the body runs, the trace records it with the
  values its parameters received.
\<close>

definition keyword_names :: "signature \<Rightarrow> string list" where
  "keyword_names sg =
     map sp_name (filter (\<lambda>p. sp_kind p = POSITIONAL_OR_KEYWORD \<or> sp_kind p = KEYWORD_ONLY) sg)"

fun call_locals ::
  "sig_parameter list \<Rightarrow> (string \<times> pyval) list \<Rightarrow> (string \<times> pyval) list
     \<Rightarrow> (string \<times> pyval) list result" where
  "call_locals [] kwargs extra = Inr []"
| "call_locals (p # ps) kwargs extra =
     (case (case sp_kind p of
              VAR_POSITIONAL \<Rightarrow> Some (TupleV [])
            | VAR_KEYWORD \<Rightarrow> Some (DictV extra)
            | POSITIONAL_ONLY \<Rightarrow> sp_default p
            | _ \<Rightarrow> (case map_of kwargs (sp_name p) of Some v \<Rightarrow> Some v | None \<Rightarrow> sp_default p)) of
        None \<Rightarrow> Inl TypeError
      | Some v \<Rightarrow>
          (case call_locals ps kwargs extra of
             Inl e \<Rightarrow> Inl e
           | Inr ls \<Rightarrow> Inr ((sp_name p, v) # ls)))"

definition call_function :: "callable \<Rightarrow> (string \<times> pyval) list \<Rightarrow> world \<Rightarrow> addr result \<times> world" where
  "call_function f kwargs w =
     (let extra = filter (\<lambda>kv. fst kv \<notin> set (keyword_names (fn_signature f))) kwargs
      in if extra \<noteq> [] \<and> VAR_KEYWORD \<notin> set (map sp_kind (fn_signature f)) then (Inl TypeError, w)
         else case call_locals (fn_signature f) kwargs extra of
                Inl e \<Rightarrow> (Inl e, w)
              | Inr ls \<Rightarrow>
                  (let (r, w1) = fn_body f ls w
                   in (Inr r, w1\<lparr>log := log w @ [Invoke (fn_id f) ls]\<rparr>)))"

text \<open>\<^verbatim>\<open>BoundArguments.apply_defaults()\<close>: the arguments in the order of the signature,
  a missing one replaced by its default, by \<^verbatim>\<open>()\<close> for the \<^verbatim>\<open>*\<close> parameter and by
  \<^verbatim>\<open>{}\<close> for the \<^verbatim>\<open>**\<close> parameter, and otherwise left out.\<close>

fun apply_defaults :: "signature \<Rightarrow> (string \<times> pyval) list \<Rightarrow> (string \<times> pyval) list" where
  "apply_defaults [] arguments = []"
| "apply_defaults (p # ps) arguments =
     (case map_of arguments (sp_name p) of
        Some v \<Rightarrow> (sp_name p, v) # apply_defaults ps arguments
      | None \<Rightarrow>
          (case sp_default p of
             Some d \<Rightarrow> (sp_name p, d) # apply_defaults ps arguments
           | None \<Rightarrow>
               (if sp_kind p = VAR_POSITIONAL then (sp_name p, TupleV []) # apply_defaults ps arguments
                else if sp_kind p = VAR_KEYWORD then (sp_name p, DictV []) # apply_defaults ps arguments
                else apply_defaults ps arguments)))"

text \<open>The attributes \<^verbatim>\<open>_definition\<close> and \<^verbatim>\<open>_signature\<close> of a \<^verbatim>\<open>CallableDef\<close>.\<close>

record callable_def =
  callable_definition' :: "callable option"
  callable_signature' :: "signature option"

definition CallableDef_init :: callable_def where
  "CallableDef_init = \<lparr>callable_definition' = None, callable_signature' = None\<rparr>"

text \<open>\<^verbatim>\<open>CallableDef.define(definition)\<close>: \<^verbatim>\<open>inspect.signature(definition)\<close> is the
  declared parameter list.\<close>

definition CallableDef_define :: "callable_def \<Rightarrow> callable \<Rightarrow> callable_def" where
  "CallableDef_define self f =
     self\<lparr>callable_definition' := Some f, callable_signature' := Some (fn_signature f)\<rparr>"

definition CallableDef_get_signature :: "callable_def \<Rightarrow> signature option" where
  "CallableDef_get_signature self = callable_signature' self"

text \<open>\<^verbatim>\<open>CallableDef.get_schedule(*args, **kwargs)\<close>. Only the \<^verbatim>\<open>TypeError\<close> of
  \<^verbatim>\<open>bind\<close> is turned into a \<^verbatim>\<open>PulseError\<close>; the call of the callable stands outside
  the \<^verbatim>\<open>try\<close>. The method does not write to the entry.\<close>

definition CallableDef_get_schedule ::
  "callable_def \<Rightarrow> pyval list \<Rightarrow> (string \<times> pyval) list \<Rightarrow> world \<Rightarrow> addr result \<times> world" where
  "CallableDef_get_schedule self args kwargs w =
     (case callable_signature' self of
        None \<Rightarrow> (Inl AttributeError, w)
      | Some sg \<Rightarrow>
          (case bind sg args kwargs of
             Inl e \<Rightarrow> (Inl (PulseError AssignedDoesntMatchFunction), w)
           | Inr bound \<Rightarrow>
               (let arguments = apply_defaults sg bound
                in case callable_definition' self of
                     None \<Rightarrow> (Inl TypeError, w)
                   | Some f \<Rightarrow>
                       (case call_function f arguments w of
                          (Inl e, w1) \<Rightarrow> (Inl e, w1)
                        | (Inr schedule, w1) \<Rightarrow>
                            (Inr schedule,
                             if metadata (objs w1 schedule) ''publisher'' = None
                             then metadata_setitem schedule ''publisher'' (Publisher QISKIT) w1
                             else w1)))))"

subsection \<open>\<^verbatim>\<open>PulseQobjDef\<close>\<close>

text \<open>
  Modelled from the spec: \<^verbatim>\<open>PulseQobjInstruction\<close> and \<^verbatim>\<open>QobjToInstructionConverter\<close>
  are not among the sources. A serialized instruction exposes a start offset \<open>t0\<close> and
  content that only the converter reads; the converter turns a serialized instruction into
  a sequence of native instructions.
\<close>

datatype pulse_qobj_instruction =
  PulseQobjInstruction (qobj_name: string) (t0: nat) (qobj_ch: string)

type_synonym converter = "pulse_qobj_instruction \<Rightarrow> instruction list"

text \<open>\<^verbatim>\<open>class PulseQobjDef(ScheduleDef)\<close>: the inherited attributes and
  \<^verbatim>\<open>_converter\<close>, \<^verbatim>\<open>_name\<close>, \<^verbatim>\<open>_source\<close>.\<close>

record pulse_qobj_def = schedule_def +
  converter' :: converter
  name' :: "string option"
  source' :: "pulse_qobj_instruction list option"

text \<open>\<^verbatim>\<open>PulseQobjDef.__init__(arguments, converter, name)\<close>; \<open>default_converter\<close> stands
  for \<^verbatim>\<open>QobjToInstructionConverter(pulse_library=[])\<close>.\<close>

definition PulseQobjDef_init ::
  "converter \<Rightarrow> string list option \<Rightarrow> converter option \<Rightarrow> string option \<Rightarrow> pulse_qobj_def" where
  "PulseQobjDef_init default_converter arguments conv nm =
     schedule_def.extend (ScheduleDef_init arguments)
       (pulse_qobj_def.fields (case conv of Some c \<Rightarrow> c | None \<Rightarrow> default_converter) nm None)"

text \<open>\<^verbatim>\<open>PulseQobjDef._build_schedule\<close>. Iterating over a \<^verbatim>\<open>_source\<close> that is still
  \<^verbatim>\<open>None\<close> raises \<^verbatim>\<open>TypeError\<close> after the empty schedule was created. The publisher
  is written without a test. \<^verbatim>\<open>_definition\<close> is assigned before
  \<^verbatim>\<open>_parse_argument\<close> runs, so it stays assigned when that raises.\<close>

definition PulseQobjDef_build_schedule :: "(pulse_qobj_def, unit) py_method" where
  "PulseQobjDef_build_schedule self w =
     (let (schedule, w1) = Schedule_new (name' self) (w\<lparr>log := log w @ [Build]\<rparr>)
      in case source' self of
           None \<Rightarrow> (Inl TypeError, self, w1)
         | Some src \<Rightarrow>
             (let w2 = fold (\<lambda>qobj_inst.
                         fold (\<lambda>qiskit_inst. Schedule_insert schedule (t0 qobj_inst) qiskit_inst)
                           (converter' self qobj_inst)) src w1;
                  w3 = metadata_setitem schedule ''publisher'' (Publisher BACKEND_PROVIDER) w2;
                  self1 = self\<lparr>definition' := Some schedule\<rparr>
              in case parse_argument self1 w3 of
                   Inl e \<Rightarrow> (Inl e, self1, w3)
                 | Inr self2 \<Rightarrow> (Inr (), self2, w3)))"

text \<open>\<^verbatim>\<open>PulseQobjDef.define(definition)\<close> only stores the source.\<close>

definition PulseQobjDef_define :: "pulse_qobj_def \<Rightarrow> pulse_qobj_instruction list \<Rightarrow> pulse_qobj_def" where
  "PulseQobjDef_define self src = self\<lparr>source' := Some src\<rparr>"




subsection \<open>Equality of entries\<close>

text \<open>
  \<^verbatim>\<open>__eq__\<close> receives any Python object as \<open>other\<close>: \<^verbatim>\<open>None\<close>, a value that is no
  entry, or an entry of one of the three classes. Reading \<^verbatim>\<open>other._definition\<close> raises
  \<^verbatim>\<open>AttributeError\<close> when the object has no such attribute. The attribute holds
  \<^verbatim>\<open>None\<close>, a schedule object or a function.
\<close>

datatype pyobj =
  PyNone
| PyValue pyval
| PyScheduleDef schedule_def
| PyCallableDef callable_def
| PyPulseQobjDef pulse_qobj_def

datatype defval = DefNone | DefSchedule addr | DefCallable callable

definition schedule_defval :: "addr option \<Rightarrow> defval" where
  "schedule_defval d = (case d of None \<Rightarrow> DefNone | Some a \<Rightarrow> DefSchedule a)"

definition callable_defval :: "callable option \<Rightarrow> defval" where
  "callable_defval d = (case d of None \<Rightarrow> DefNone | Some f \<Rightarrow> DefCallable f)"

fun getattr_definition :: "pyobj \<Rightarrow> defval result" where
  "getattr_definition PyNone = Inl AttributeError"
| "getattr_definition (PyValue v) = Inl AttributeError"
| "getattr_definition (PyScheduleDef e) = Inr (schedule_defval (definition' e))"
| "getattr_definition (PyCallableDef e) = Inr (callable_defval (callable_definition' e))"
| "getattr_definition (PyPulseQobjDef e) = Inr (schedule_defval (definition' e))"

text \<open>\<^verbatim>\<open>isinstance(other, ScheduleDef)\<close> holds for the subclass too.\<close>

fun isinstance_ScheduleDef :: "pyobj \<Rightarrow> bool" where
  "isinstance_ScheduleDef (PyScheduleDef e) = True"
| "isinstance_ScheduleDef (PyPulseQobjDef e) = True"
| "isinstance_ScheduleDef other = False"

text \<open>
  \<^verbatim>\<open>a == b\<close> and \<^verbatim>\<open>a is b\<close> on the values of \<^verbatim>\<open>_definition\<close>. Two schedule objects
  are compared by the collaborator's own \<^verbatim>\<open>Schedule.__eq__\<close>, which is not among the
  sources and is a parameter here (\<open>schedule_eq\<close>); functions are equal when they are the
  same object; values of different kinds are unequal.
\<close>

fun py_eq :: "(schedule \<Rightarrow> schedule \<Rightarrow> bool) \<Rightarrow> world \<Rightarrow> defval \<Rightarrow> defval \<Rightarrow> bool" where
  "py_eq schedule_eq w DefNone DefNone = True"
| "py_eq schedule_eq w (DefSchedule a) (DefSchedule b) = schedule_eq (objs w a) (objs w b)"
| "py_eq schedule_eq w (DefCallable f) (DefCallable g) = (fn_id f = fn_id g)"
| "py_eq schedule_eq w x y = False"

fun py_is :: "defval \<Rightarrow> defval \<Rightarrow> bool" where
  "py_is DefNone DefNone = True"
| "py_is (DefSchedule a) (DefSchedule b) = (a = b)"
| "py_is (DefCallable f) (DefCallable g) = (fn_id f = fn_id g)"
| "py_is x y = False"

text \<open>\<^verbatim>\<open>ScheduleDef.__eq__\<close>: \<^verbatim>\<open>self._definition == other._definition\<close>.\<close>

definition ScheduleDef_eq ::
  "(schedule \<Rightarrow> schedule \<Rightarrow> bool) \<Rightarrow> schedule_def \<Rightarrow> pyobj \<Rightarrow> world \<Rightarrow> bool result" where
  "ScheduleDef_eq schedule_eq self other w =
     (case getattr_definition other of
        Inl e \<Rightarrow> Inl e
      | Inr d \<Rightarrow> Inr (py_eq schedule_eq w (schedule_defval (definition' self)) d))"

text \<open>\<^verbatim>\<open>CallableDef.__eq__\<close>: \<^verbatim>\<open>self._definition is other._definition\<close>.\<close>

definition CallableDef_eq :: "callable_def \<Rightarrow> pyobj \<Rightarrow> bool result" where
  "CallableDef_eq self other =
     (case getattr_definition other of
        Inl e \<Rightarrow> Inl e
      | Inr d \<Rightarrow> Inr (py_is (callable_defval (callable_definition' self)) d))"

text \<open>\<^verbatim>\<open>PulseQobjDef.__eq__\<close>: against another \<^verbatim>\<open>PulseQobjDef\<close> the two sources are
  compared; against another \<^verbatim>\<open>ScheduleDef\<close> an entry without a definition is built
  first, and the definitions are compared.\<close>

definition PulseQobjDef_eq ::
  "(schedule \<Rightarrow> schedule \<Rightarrow> bool) \<Rightarrow> pulse_qobj_def \<Rightarrow> pyobj \<Rightarrow> world
     \<Rightarrow> bool result \<times> pulse_qobj_def \<times> world" where
  "PulseQobjDef_eq schedule_eq self other w =
     (case other of
        PyPulseQobjDef e \<Rightarrow> (Inr (source' self = source' e), self, w)
      | _ \<Rightarrow>
          (case (if isinstance_ScheduleDef other \<and> definition' self = None
                 then PulseQobjDef_build_schedule self w else (Inr (), self, w)) of
             (Inl e, self1, w1) \<Rightarrow> (Inl e, self1, w1)
           | (Inr u, self1, w1) \<Rightarrow>
               (case getattr_definition other of
                  Inl e \<Rightarrow> (Inl e, self1, w1)
                | Inr d \<Rightarrow>
                    (Inr (py_eq schedule_eq w1 (schedule_defval (definition' self1)) d), self1, w1))))"

subsection \<open>Requests on a \<^verbatim>\<open>PulseQobjDef\<close> and the number of builds\<close>




definition builds :: "world \<Rightarrow> nat" where
  "builds w = count_list (log w) Build"

definition publisher_of :: "world \<Rightarrow> addr \<Rightarrow> metaval option" where
  "publisher_of w a = metadata (objs w a) ''publisher''"

text \<open>The serialized instructions of a source with the native instructions the converter
  yields for them, each paired with the start offset of its serialized instruction, in
  the order in which \<^verbatim>\<open>_build_schedule\<close> meets them.\<close>

definition converted :: "converter \<Rightarrow> pulse_qobj_instruction list \<Rightarrow> (nat \<times> instruction) list" where
  "converted conv src = concat (map (\<lambda>q. map (\<lambda>i. (t0 q, i)) (conv q)) src)"

text \<open>What a build is expected to leave in the store: a new schedule object with the
  entry's name, the converted instructions in the stable order of their start offsets
  (ties in the order of the source) and the publisher \<open>BACKEND_PROVIDER\<close> as its only
  metadata, allocated at the next free address, and one more \<open>Build\<close> in the trace.\<close>

definition built_schedule :: "string option \<Rightarrow> converter \<Rightarrow> pulse_qobj_instruction list \<Rightarrow> schedule" where
  "built_schedule nm conv src =
     \<lparr>sched_name = nm, metadata = [''publisher'' \<mapsto> Publisher BACKEND_PROVIDER],
      instructions = sort_key fst (converted conv src)\<rparr>"

definition built_world :: "pulse_qobj_def \<Rightarrow> pulse_qobj_instruction list \<Rightarrow> world \<Rightarrow> world" where
  "built_world self src w =
     w\<lparr>log := log w @ [Build], next_addr := Suc (next_addr w),
       objs := (objs w)(next_addr w := built_schedule (name' self) (converter' self) src)\<rparr>"

subsection \<open>The arguments a full binding resolves\<close>

text \<open>
  The words of the specification for the binding of a \<^verbatim>\<open>CallableDef\<close>, to be compared
  with \<open>bind\<close>, \<open>apply_defaults\<close> and \<open>call_function\<close> above. A signature is plain when
  its names are distinct and it lists positional-or-keyword parameters followed by
  keyword-only ones, as a function declared without \<^verbatim>\<open>/\<close>, \<^verbatim>\<open>*args\<close> and
  \<^verbatim>\<open>**kwargs\<close> does; \<open>positional\<close> are the parameters a position can reach. The
  resolved arguments give every parameter, in the order of the signature, its positional
  value, else its keyword value, else its default; there are none (\<open>None\<close>) when a
  parameter without a default is left unbound.
\<close>

definition positional :: "signature \<Rightarrow> sig_parameter list" where
  "positional sg = takeWhile (\<lambda>p. sp_kind p = POSITIONAL_OR_KEYWORD) sg"

definition plain_signature :: "signature \<Rightarrow> bool" where
  "plain_signature sg \<longleftrightarrow>
     distinct (map sp_name sg) \<and>
     list_all (\<lambda>p. sp_kind p = KEYWORD_ONLY) (dropWhile (\<lambda>p. sp_kind p = POSITIONAL_OR_KEYWORD) sg)"

fun resolve :: "signature \<Rightarrow> pyval list \<Rightarrow> (string \<times> pyval) list \<Rightarrow> (string \<times> pyval) list option" where
  "resolve [] args kwargs = Some []"
| "resolve (p # ps) (a # as) kwargs = map_option (Cons (sp_name p, a)) (resolve ps as kwargs)"
| "resolve (p # ps) [] kwargs =
     (case (case map_of kwargs (sp_name p) of Some v \<Rightarrow> Some v | None \<Rightarrow> sp_default p) of
        None \<Rightarrow> None
      | Some v \<Rightarrow> map_option (Cons (sp_name p, v)) (resolve ps [] kwargs))"

subsection \<open>Example objects\<close>

definition amp :: parameter where
  "amp = Parameter ''amp'' 1"

definition dur :: parameter where
  "dur = Parameter ''dur'' 2"

definition play :: instruction where
  "play = Instruction ''play'' [Symbolic dur, Symbolic amp]"

definition xgate :: schedule where
  "xgate = \<lparr>sched_name = Some ''xgate'', metadata = Map.empty, instructions = [(0, play)]\<rparr>"

text \<open>A store whose one allocated object, at address 0, is \<open>xgate\<close>.\<close>

definition store0 :: world where
  "store0 = \<lparr>objs = (\<lambda>a. xgate), next_addr = 1, log = []\<rparr>"

text \<open>A schedule whose one parameter is named by a Python keyword, in a store of its own.\<close>

definition lam :: parameter where
  "lam = Parameter ''lambda'' 3"

definition wave :: schedule where
  "wave = \<lparr>sched_name = Some ''wave'', metadata = Map.empty,
           instructions = [(0, Instruction ''play'' [Symbolic lam])]\<rparr>"

definition store_lambda :: world where
  "store_lambda = \<lparr>objs = (\<lambda>a. wave), next_addr = 1, log = []\<rparr>"

text \<open>A converter that yields one instruction without operands for each serialized
  instruction, a source of two serialized instructions at the offsets 10 and 5, and
  entries defined with sources.\<close>

definition convert_one :: converter where
  "convert_one q = [Instruction (qobj_name q) []]"

definition source_10_5 :: "pulse_qobj_instruction list" where
  "source_10_5 = [PulseQobjInstruction ''late'' 10 ''d0'', PulseQobjInstruction ''early'' 5 ''d0'']"

definition deferred :: pulse_qobj_def where
  "deferred = PulseQobjDef_define (PulseQobjDef_init convert_one None None (Some ''cal'')) source_10_5"

definition deferred_x :: pulse_qobj_def where
  "deferred_x = PulseQobjDef_define (PulseQobjDef_init convert_one (Some [''x'']) None None) []"

text \<open>A store whose object at address 0 already carries a publisher, two entries defined
  with that object, and two functions: one with a required parameter and a parameter with
  a default, one with a \<^verbatim>\<open>*args\<close> parameter. Both return a new schedule that plays its
  arguments.\<close>

definition store_tagged :: world where
  "store_tagged = metadata_setitem 0 ''publisher'' (Publisher EXPERIMENT_SERVICE) store0"

definition inline :: schedule_def where
  "inline =
     \<lparr>user_arguments' = None, definition' = Some 0,
      signature' = Some [SigParameter ''amp'' POSITIONAL_OR_KEYWORD None,
                         SigParameter ''dur'' POSITIONAL_OR_KEYWORD None]\<rparr>"

definition play_arguments :: "(string \<times> pyval) list \<Rightarrow> world \<Rightarrow> addr \<times> world" where
  "play_arguments ls w =
     (let (a, w1) = Schedule_new (Some ''made'') w
      in (a, Schedule_insert a 0 (Instruction ''play'' (map (\<lambda>kv. Concrete (snd kv)) ls)) w1))"

definition make_play :: callable where
  "make_play =
     \<lparr>fn_id = 7, fn_name = ''make_play'',
      fn_signature = [SigParameter ''dur'' POSITIONAL_OR_KEYWORD None,
                      SigParameter ''amp'' POSITIONAL_OR_KEYWORD (Some (IntV 1))],
      fn_body = play_arguments\<rparr>"

definition variadic :: callable where
  "variadic =
     \<lparr>fn_id = 8, fn_name = ''variadic'',
      fn_signature = [SigParameter ''args'' VAR_POSITIONAL None],
      fn_body = play_arguments\<rparr>"

section \<open>Properties\<close>

subsection \<open>Deriving the signature of a \<^verbatim>\<open>ScheduleDef\<close>\<close>

lemma parameters_metadata_setitem [simp]:
  "parameters (objs (metadata_setitem a k v w) b) = parameters (objs w b)"
  by (simp add: metadata_setitem_def parameters_def)

lemma is_identifier_start_not_dot:
  "is_identifier_start c \<Longrightarrow> c \<noteq> CHR ''.''"
  by (auto simp: is_identifier_start_def Let_def)

lemma Parameter_new_valid:
  assumes "valid_name n"
  shows "Parameter_new n POSITIONAL_OR_KEYWORD = Inr (SigParameter n POSITIONAL_OR_KEYWORD None)"
proof -
  from assms obtain c cs where n: "n = c # cs" and c: "is_identifier_start c"
    by (cases n) (simp_all add: valid_name_def isidentifier_def)
  have "c \<noteq> CHR ''.''" using c by (rule is_identifier_start_not_dot)
  then have "Parameter_new n POSITIONAL_OR_KEYWORD = Parameter_checked n POSITIONAL_OR_KEYWORD"
    by (simp add: Parameter_new_def n)
  then show ?thesis
    using assms by (simp add: Parameter_checked_def valid_name_def)
qed

lemma make_parameters_valid:
  "list_all valid_name names \<Longrightarrow>
   make_parameters names = Inr (map (\<lambda>n. SigParameter n POSITIONAL_OR_KEYWORD None) names)"
  by (induction names) (simp_all add: Parameter_new_valid)

lemma sorted_same_kind:
  "sorted (map (\<lambda>p. kind_rank (sp_kind p)) (map (\<lambda>n. SigParameter n POSITIONAL_OR_KEYWORD None) names))"
  by (induction names) simp_all

lemma Signature_new_distinct:
  "distinct names \<Longrightarrow>
   Signature_new (map (\<lambda>n. SigParameter n POSITIONAL_OR_KEYWORD None) names)
     = Inr (map (\<lambda>n. SigParameter n POSITIONAL_OR_KEYWORD None) names)"
  using sorted_same_kind [of names] by (simp add: Signature_new_def comp_def)

lemma Signature_new_duplicate:
  "\<not> distinct names \<Longrightarrow>
   Signature_new (map (\<lambda>n. SigParameter n POSITIONAL_OR_KEYWORD None) names) = Inl ValueError"
  by (simp add: Signature_new_def comp_def)

text \<open>The outcome of \<^verbatim>\<open>_parse_argument\<close> in its two branches.\<close>

lemma parse_argument_sorted_unfold:
  assumes "user_arguments' self = None \<or> user_arguments' self = Some []" and "definition' self = Some d"
  shows "parse_argument self w =
     (case make_parameters (sort (remdups (map param_name (parameters (objs w d))))) of
        Inl e \<Rightarrow> Inl e
      | Inr params \<Rightarrow>
          (case Signature_new params of
             Inl e \<Rightarrow> Inl e
           | Inr sg \<Rightarrow> Inr (self\<lparr>signature' := Some sg\<rparr>)))"
  using assms by (auto simp add: parse_argument_def Let_def)

lemma parse_argument_explicit_unfold:
  assumes "user_arguments' self = Some names" and "names \<noteq> []" and "definition' self = Some d"
  shows "parse_argument self w =
     (if set names \<noteq> param_name ` set (parameters (objs w d)) then Inl (PulseError ArgumentsDontMatch)
      else case make_parameters names of
             Inl e \<Rightarrow> Inl e
           | Inr params \<Rightarrow>
               (case Signature_new params of
                  Inl e \<Rightarrow> Inl e
                | Inr sg \<Rightarrow> Inr (self\<lparr>signature' := Some sg\<rparr>)))"
proof -
  obtain u us where n: "names = u # us" using assms(2) by (cases names) auto
  show ?thesis
    using assms unfolding n by (simp add: parse_argument_def Let_def)
qed

lemma parse_argument_sorted:
  assumes "user_arguments' self = None \<or> user_arguments' self = Some []" and "definition' self = Some d"
    and "list_all valid_name (map param_name (parameters (objs w d)))"
  shows "parse_argument self w =
     Inr (self\<lparr>signature' := Some (map (\<lambda>n. SigParameter n POSITIONAL_OR_KEYWORD None)
                         (sort (remdups (map param_name (parameters (objs w d))))))\<rparr>)"
proof -
  let ?names = "sort (remdups (map param_name (parameters (objs w d))))"
  have d: "distinct ?names" by simp
  have v: "list_all valid_name ?names"
    using assms(3) by (simp add: list_all_iff)
  show ?thesis
    unfolding parse_argument_sorted_unfold [OF assms(1,2)]
    by (simp only: make_parameters_valid [OF v] Signature_new_distinct [OF d] sum.case)
qed

lemma parse_argument_explicit:
  assumes "user_arguments' self = Some names" and "names \<noteq> []" and "definition' self = Some d"
    and "list_all valid_name names"
  shows "parse_argument self w =
     (if set names \<noteq> param_name ` set (parameters (objs w d)) then Inl (PulseError ArgumentsDontMatch)
      else if distinct names
        then Inr (self\<lparr>signature' := Some (map (\<lambda>n. SigParameter n POSITIONAL_OR_KEYWORD None) names)\<rparr>)
        else Inl ValueError)"
proof (cases "distinct names")
  case True
  show ?thesis
    unfolding parse_argument_explicit_unfold [OF assms(1,2,3)]
    by (simp only: make_parameters_valid [OF assms(4)] Signature_new_distinct [OF True] True
          sum.case if_True)
next
  case False
  show ?thesis
    unfolding parse_argument_explicit_unfold [OF assms(1,2,3)]
    by (simp only: make_parameters_valid [OF assms(4)] Signature_new_duplicate [OF False] False
          sum.case if_False)
qed

lemma parse_argument_cases:
  "(\<exists>e. parse_argument self w = Inl e) \<or>
   (\<exists>sg. parse_argument self w = Inr (self\<lparr>signature' := Some sg\<rparr>))"
  by (auto simp add: parse_argument_def Let_def simp del: make_parameters.simps
      split: option.split list.split sum.split)

lemma ScheduleDef_define_unfold:
  "ScheduleDef_define self d w =
     (case parse_argument (self\<lparr>definition' := Some d\<rparr>)
             (if metadata (objs w d) ''publisher'' = None
              then metadata_setitem d ''publisher'' (Publisher QISKIT) w else w) of
        Inl e \<Rightarrow> (Inl e, self\<lparr>definition' := Some d\<rparr>,
                   if metadata (objs w d) ''publisher'' = None
                   then metadata_setitem d ''publisher'' (Publisher QISKIT) w else w)
      | Inr self2 \<Rightarrow> (Inr (), self2,
                   if metadata (objs w d) ''publisher'' = None
                   then metadata_setitem d ''publisher'' (Publisher QISKIT) w else w))"
  by (simp add: ScheduleDef_define_def Let_def)

lemma define_world:
  "ScheduleDef_define self d w = (r, self1, w1) \<Longrightarrow>
   w1 = (if metadata (objs w d) ''publisher'' = None
         then metadata_setitem d ''publisher'' (Publisher QISKIT) w else w)"
  by (auto simp add: ScheduleDef_define_unfold split: sum.splits)

subsection \<open>Evaluation of the example objects\<close>

lemmas example_defs = store0_def xgate_def play_def amp_def dur_def

lemma ScheduleDef_init_sel [simp]:
  "user_arguments' (ScheduleDef_init a) = a"
  "definition' (ScheduleDef_init a) = None"
  "signature' (ScheduleDef_init a) = None"
  by (simp_all add: ScheduleDef_init_def)

lemma objs_store0 [simp]: "objs store0 a = xgate"
  by (simp add: store0_def)

lemma parameters_xgate [simp]: "parameters xgate = [dur, amp]"
  by (simp add: parameters_def instruction_parameters_def xgate_def play_def amp_def dur_def)

lemma param_names [simp]: "param_name dur = ''dur''" "param_name amp = ''amp''"
  by (simp_all add: amp_def dur_def)

lemma metadata_xgate [simp]: "metadata xgate k = None"
  by (simp add: xgate_def)

lemma valid_example_names [simp]:
  "valid_name ''amp''" "valid_name ''dur''" "\<not> valid_name ''lambda''"
  by (simp_all add: valid_name_def isidentifier_def iskeyword_def is_identifier_start_def
        is_identifier_continue_def)

lemma objs_store_lambda [simp]: "objs store_lambda a = wave"
  by (simp add: store_lambda_def)

lemma parameters_wave [simp]: "parameters wave = [lam]"
  by (simp add: parameters_def instruction_parameters_def wave_def)

lemma param_name_lam [simp]: "param_name lam = ''lambda''"
  by (simp add: lam_def)

lemma metadata_wave [simp]: "metadata wave k = None"
  by (simp add: wave_def)

lemma Parameter_new_lambda [simp]: "Parameter_new ''lambda'' POSITIONAL_OR_KEYWORD = Inl ValueError"
  by (simp add: Parameter_new_def Parameter_checked_def iskeyword_def)

lemma define_store0:
  "ScheduleDef_define (ScheduleDef_init None) 0 store0 =
    (Inr (),
     \<lparr>user_arguments' = None, definition' = Some 0,
      signature' = Some [SigParameter ''amp'' POSITIONAL_OR_KEYWORD None,
                         SigParameter ''dur'' POSITIONAL_OR_KEYWORD None]\<rparr>,
     metadata_setitem 0 ''publisher'' (Publisher QISKIT) store0)"
  by (simp add: ScheduleDef_define_unfold parse_argument_sorted)

lemma define_store0_explicit:
  "ScheduleDef_define (ScheduleDef_init (Some [''dur'', ''amp''])) 0 store0 =
    (Inr (),
     \<lparr>user_arguments' = Some [''dur'', ''amp''], definition' = Some 0,
      signature' = Some [SigParameter ''dur'' POSITIONAL_OR_KEYWORD None,
                         SigParameter ''amp'' POSITIONAL_OR_KEYWORD None]\<rparr>,
     metadata_setitem 0 ''publisher'' (Publisher QISKIT) store0)"
  by (simp add: ScheduleDef_define_unfold parse_argument_explicit [of _ "[''dur'', ''amp'']"])

lemma define_store0_mismatch:
  "ScheduleDef_define (ScheduleDef_init (Some [''amp''])) 0 store0 =
    (Inl (PulseError ArgumentsDontMatch),
     \<lparr>user_arguments' = Some [''amp''], definition' = Some 0, signature' = None\<rparr>,
     metadata_setitem 0 ''publisher'' (Publisher QISKIT) store0)"
  by (simp add: ScheduleDef_define_unfold parse_argument_explicit [of _ "[''amp'']"])

lemma define_store0_duplicate:
  "ScheduleDef_define (ScheduleDef_init (Some [''amp'', ''dur'', ''amp''])) 0 store0 =
     (Inl ValueError,
      \<lparr>user_arguments' = Some [''amp'', ''dur'', ''amp''], definition' = Some 0, signature' = None\<rparr>,
      metadata_setitem 0 ''publisher'' (Publisher QISKIT) store0)"
proof -
  let ?names = "[''amp'', ''dur'', ''amp'']"
  let ?w1 = "metadata_setitem 0 ''publisher'' (Publisher QISKIT) store0"
  let ?self1 = "(ScheduleDef_init (Some ?names))\<lparr>definition' := Some 0\<rparr>"
  have eq: "set ?names = param_name ` set (parameters (objs ?w1 0))"
    by auto
  have nd: "distinct ?names = False"
    by simp
  have a: "user_arguments' ?self1 = Some ?names" and b: "?names \<noteq> []"
    and c: "definition' ?self1 = Some 0" and v: "list_all valid_name ?names"
    by simp_all
  have "parse_argument ?self1 ?w1 = Inl ValueError"
    unfolding parse_argument_explicit [OF a b c v] by (simp only: eq nd if_False simp_thms)
  then show ?thesis
    by (simp add: ScheduleDef_define_unfold)
qed

lemma define_store0_empty:
  "ScheduleDef_define (ScheduleDef_init (Some [])) 0 store0 =
     (Inr (),
      \<lparr>user_arguments' = Some [], definition' = Some 0,
       signature' = Some [SigParameter ''amp'' POSITIONAL_OR_KEYWORD None,
                          SigParameter ''dur'' POSITIONAL_OR_KEYWORD None]\<rparr>,
      metadata_setitem 0 ''publisher'' (Publisher QISKIT) store0)"
  by (simp add: ScheduleDef_define_unfold parse_argument_sorted ScheduleDef_init_def)

lemma define_store_lambda:
  "ScheduleDef_define (ScheduleDef_init None) 0 store_lambda =
     (Inl ValueError,
      \<lparr>user_arguments' = None, definition' = Some 0, signature' = None\<rparr>,
      metadata_setitem 0 ''publisher'' (Publisher QISKIT) store_lambda)"
  by (simp add: ScheduleDef_define_unfold parse_argument_sorted_unfold ScheduleDef_init_def)

lemma define_store_lambda_explicit:
  "ScheduleDef_define (ScheduleDef_init (Some [''lambda''])) 0 store_lambda =
     (Inl ValueError,
      \<lparr>user_arguments' = Some [''lambda''], definition' = Some 0, signature' = None\<rparr>,
      metadata_setitem 0 ''publisher'' (Publisher QISKIT) store_lambda)"
  by (simp add: ScheduleDef_define_unfold parse_argument_explicit_unfold [of _ "[''lambda'']"]
        ScheduleDef_init_def)

subsection \<open>The signature without explicit argument names\<close>

text \<open>C3, as amended. For every \<^verbatim>\<open>ScheduleDef\<close> constructed without explicit argument
  names and defined with a schedule object whose parameter names are all valid Python
  identifiers other than keywords, \<^verbatim>\<open>define\<close> succeeds, and \<^verbatim>\<open>get_signature()\<close> then
  returns, in any later store, the signature whose parameters are the names of the
  parameters of the stored value, each once, in lexicographic order: the list of names is
  sorted, has no duplicate, and its set is the set of the parameter names of the stored
  value.\<close>

theorem signature_names_sorted:
  assumes "user_arguments' self = None" and "ScheduleDef_define self d w = (r, self1, w1)"
    and "list_all valid_name (map param_name (parameters (objs w1 d)))"
  shows "r = Inr () \<and>
         ScheduleDef_get_signature self1 w' =
           (Inr (Some (map (\<lambda>n. SigParameter n POSITIONAL_OR_KEYWORD None)
                         (sort (remdups (map param_name (parameters (objs w1 d))))))), self1, w') \<and>
         sorted (sort (remdups (map param_name (parameters (objs w1 d))))) \<and>
         distinct (sort (remdups (map param_name (parameters (objs w1 d))))) \<and>
         set (sort (remdups (map param_name (parameters (objs w1 d)))))
           = param_name ` set (parameters (objs w1 d))"
proof -
  have w1: "w1 = (if metadata (objs w d) ''publisher'' = None
         then metadata_setitem d ''publisher'' (Publisher QISKIT) w else w)"
    using assms(2) by (rule define_world)
  have a: "user_arguments' (self\<lparr>definition' := Some d\<rparr>) = None \<or>
           user_arguments' (self\<lparr>definition' := Some d\<rparr>) = Some []"
    and b: "definition' (self\<lparr>definition' := Some d\<rparr>) = Some d"
    using assms(1) by simp_all
  have pa: "parse_argument (self\<lparr>definition' := Some d\<rparr>) w1 =
     Inr (self\<lparr>definition' := Some d, signature' := Some (map (\<lambda>n. SigParameter n POSITIONAL_OR_KEYWORD None)
                         (sort (remdups (map param_name (parameters (objs w1 d))))))\<rparr>)"
    using parse_argument_sorted [OF a b assms(3)] by simp
  have "ScheduleDef_define self d w = (Inr (), self\<lparr>definition' := Some d, signature' := Some (map (\<lambda>n. SigParameter n POSITIONAL_OR_KEYWORD None)
                         (sort (remdups (map param_name (parameters (objs w1 d))))))\<rparr>, w1)"
    using pa unfolding ScheduleDef_define_unfold w1 [symmetric] by simp
  with assms(2) show ?thesis
    by (auto simp add: ScheduleDef_get_signature_def)
qed

theorem signature_names_sorted_witness:
  "ScheduleDef_get_signature (fst (snd (ScheduleDef_define (ScheduleDef_init None) 0 store0))) store0 =
     (Inr (Some [SigParameter ''amp'' POSITIONAL_OR_KEYWORD None,
                 SigParameter ''dur'' POSITIONAL_OR_KEYWORD None]),
      fst (snd (ScheduleDef_define (ScheduleDef_init None) 0 store0)), store0)"
proof -
  let ?d = "ScheduleDef_define (ScheduleDef_init None) 0 store0"
  have a: "user_arguments' (ScheduleDef_init None) = None"
    by simp
  have b: "?d = (fst ?d, fst (snd ?d), snd (snd ?d))"
    by simp
  have c: "list_all valid_name (map param_name (parameters (objs (snd (snd ?d)) 0)))"
    by (simp add: define_store0)
  from signature_names_sorted [OF a b c, of store0]
  have "ScheduleDef_get_signature (fst (snd ?d)) store0 =
           (Inr (Some (map (\<lambda>n. SigParameter n POSITIONAL_OR_KEYWORD None)
                         (sort (remdups (map param_name (parameters (objs (snd (snd ?d)) 0))))))),
            fst (snd ?d), store0)"
    by blast
  then show ?thesis
    by (simp add: define_store0)
qed

text \<open>The claim as stated fails for a parameter whose name is a keyword or no identifier:
  a schedule with the one parameter \<open>lambda\<close> is defined on an entry without explicit
  argument names, \<^verbatim>\<open>inspect.Parameter\<close> refuses the name with \<^verbatim>\<open>ValueError\<close>, and no
  signature is stored, so \<^verbatim>\<open>get_signature()\<close> returns \<^verbatim>\<open>None\<close>.\<close>

theorem signature_names_sorted_counterexample:
  "user_arguments' (ScheduleDef_init None) = None \<and>
   map param_name (parameters (objs store_lambda 0)) = [''lambda''] \<and>
   ScheduleDef_define (ScheduleDef_init None) 0 store_lambda =
     (Inl ValueError,
      \<lparr>user_arguments' = None, definition' = Some 0, signature' = None\<rparr>,
      metadata_setitem 0 ''publisher'' (Publisher QISKIT) store_lambda) \<and>
   fst (ScheduleDef_get_signature
          \<lparr>user_arguments' = None, definition' = Some 0, signature' = None\<rparr> store_lambda)
     = Inr None"
  by (simp add: define_store_lambda ScheduleDef_get_signature_def)

subsection \<open>The signature with explicit argument names\<close>

text \<open>C6, as amended. For every \<^verbatim>\<open>ScheduleDef\<close> constructed with explicit argument
  names: when the set of the names equals the set of the parameter names of the schedule
  object that \<^verbatim>\<open>define\<close> receives, and the names are distinct valid Python identifiers
  other than keywords, \<^verbatim>\<open>define\<close> succeeds and \<^verbatim>\<open>get_signature()\<close> returns the names
  in exactly the caller's order; when the two sets differ and the list of names is not
  empty, \<^verbatim>\<open>define\<close> raises the \<^verbatim>\<open>PulseError\<close> "Specified arguments don't match with
  schedule parameters" (ArgumentMismatch) and leaves the signature as it was.\<close>

theorem explicit_arguments_signature:
  assumes "user_arguments' self = Some names"
    and "ScheduleDef_define self d w = (r, self1, w1)"
  shows "(set names = param_name ` set (parameters (objs w1 d)) \<and> distinct names \<and>
          list_all valid_name names \<longrightarrow>
            r = Inr () \<and>
            ScheduleDef_get_signature self1 w' =
              (Inr (Some (map (\<lambda>n. SigParameter n POSITIONAL_OR_KEYWORD None) names)), self1, w')) \<and>
         (set names \<noteq> param_name ` set (parameters (objs w1 d)) \<and> names \<noteq> [] \<longrightarrow>
            r = Inl (PulseError ArgumentsDontMatch) \<and> signature' self1 = signature' self)"
proof -
  let ?self1 = "self\<lparr>definition' := Some d\<rparr>"
  let ?sg = "map (\<lambda>n. SigParameter n POSITIONAL_OR_KEYWORD None) names"
  have w1: "w1 = (if metadata (objs w d) ''publisher'' = None
         then metadata_setitem d ''publisher'' (Publisher QISKIT) w else w)"
    using assms(2) by (rule define_world)
  have u: "user_arguments' ?self1 = Some names" and b: "definition' ?self1 = Some d"
    using assms(1) by simp_all
  have ok: "r = Inr () \<and> ScheduleDef_get_signature self1 w' = (Inr (Some ?sg), self1, w')"
    if eq: "set names = param_name ` set (parameters (objs w1 d))" and dis: "distinct names"
      and val: "list_all valid_name names"
  proof -
    have pa: "parse_argument ?self1 w1 = Inr (self\<lparr>definition' := Some d, signature' := Some ?sg\<rparr>)"
    proof (cases "names = []")
      case True
      then have p: "parameters (objs w1 d) = []" using eq by simp
      have e: "user_arguments' ?self1 = None \<or> user_arguments' ?self1 = Some []"
        using u True by simp
      have v: "list_all valid_name (map param_name (parameters (objs w1 d)))"
        by (simp add: p)
      show ?thesis
        using parse_argument_sorted [OF e b v] by (simp add: p True)
    next
      case False
      show ?thesis
        using parse_argument_explicit [OF u False b val, of w1] eq dis by simp
    qed
    have "ScheduleDef_define self d w = (Inr (), self\<lparr>definition' := Some d, signature' := Some ?sg\<rparr>, w1)"
      using pa unfolding ScheduleDef_define_unfold w1 [symmetric] by simp
    with assms(2) show ?thesis
      by (auto simp add: ScheduleDef_get_signature_def)
  qed
  have bad: "r = Inl (PulseError ArgumentsDontMatch) \<and> signature' self1 = signature' self"
    if ne: "set names \<noteq> param_name ` set (parameters (objs w1 d))" and non: "names \<noteq> []"
  proof -
    have pa: "parse_argument ?self1 w1 = Inl (PulseError ArgumentsDontMatch)"
      using parse_argument_explicit_unfold [OF u non b, of w1] ne by simp
    have "ScheduleDef_define self d w = (Inl (PulseError ArgumentsDontMatch), ?self1, w1)"
      using pa unfolding ScheduleDef_define_unfold w1 [symmetric] by simp
    with assms(2) show ?thesis by auto
  qed
  show ?thesis
    using ok bad by blast
qed

theorem explicit_arguments_signature_witness:
  "ScheduleDef_get_signature
     \<lparr>user_arguments' = Some [''dur'', ''amp''], definition' = Some 0,
      signature' = Some [SigParameter ''dur'' POSITIONAL_OR_KEYWORD None,
                         SigParameter ''amp'' POSITIONAL_OR_KEYWORD None]\<rparr> store0 =
     (Inr (Some (map (\<lambda>n. SigParameter n POSITIONAL_OR_KEYWORD None) [''dur'', ''amp''])),
      \<lparr>user_arguments' = Some [''dur'', ''amp''], definition' = Some 0,
       signature' = Some [SigParameter ''dur'' POSITIONAL_OR_KEYWORD None,
                          SigParameter ''amp'' POSITIONAL_OR_KEYWORD None]\<rparr>, store0) \<and>
   fst (ScheduleDef_define (ScheduleDef_init (Some [''amp''])) 0 store0)
     = Inl (PulseError ArgumentsDontMatch)"
proof -
  let ?w1 = "metadata_setitem 0 ''publisher'' (Publisher QISKIT) store0"
  let ?m = "ScheduleDef_define (ScheduleDef_init (Some [''amp''])) 0 store0"
  have a: "user_arguments' (ScheduleDef_init (Some [''dur'', ''amp''])) = Some [''dur'', ''amp'']"
    and a': "user_arguments' (ScheduleDef_init (Some [''amp''])) = Some [''amp'']"
    by simp_all
  have eq: "set [''dur'', ''amp''] = param_name ` set (parameters (objs ?w1 0)) \<and>
            distinct [''dur'', ''amp''] \<and> list_all valid_name [''dur'', ''amp'']"
    by auto
  have m: "?m = (fst ?m, fst (snd ?m), snd (snd ?m))"
    by simp
  have ne: "set [''amp''] \<noteq> param_name ` set (parameters (objs (snd (snd ?m)) 0)) \<and> [''amp''] \<noteq> []"
    by (simp add: define_store0_mismatch)
  have one: "ScheduleDef_get_signature
     \<lparr>user_arguments' = Some [''dur'', ''amp''], definition' = Some 0,
      signature' = Some [SigParameter ''dur'' POSITIONAL_OR_KEYWORD None,
                         SigParameter ''amp'' POSITIONAL_OR_KEYWORD None]\<rparr> store0 =
     (Inr (Some (map (\<lambda>n. SigParameter n POSITIONAL_OR_KEYWORD None) [''dur'', ''amp''])),
      \<lparr>user_arguments' = Some [''dur'', ''amp''], definition' = Some 0,
       signature' = Some [SigParameter ''dur'' POSITIONAL_OR_KEYWORD None,
                          SigParameter ''amp'' POSITIONAL_OR_KEYWORD None]\<rparr>, store0)"
    using explicit_arguments_signature [OF a define_store0_explicit, of store0] eq
    by blast
  have two: "fst ?m = Inl (PulseError ArgumentsDontMatch)"
    using explicit_arguments_signature [OF a' m] ne
    by blast
  show ?thesis
    using one two by (rule conjI)
qed

text \<open>The claim as stated fails in four ways. With the names \<open>amp, dur, amp\<close> the two sets
  are equal, yet \<^verbatim>\<open>define\<close> raises the \<^verbatim>\<open>ValueError\<close> of \<^verbatim>\<open>inspect.Signature\<close>
  (duplicate parameter name) and no signature is stored. With the name \<open>lambda\<close>, the one
  parameter name of the schedule, the two sets are equal and the names distinct, yet
  \<^verbatim>\<open>define\<close> raises the \<^verbatim>\<open>ValueError\<close> of \<^verbatim>\<open>inspect.Parameter\<close>. With the empty list
  the two sets differ, yet \<^verbatim>\<open>define\<close> succeeds, since the truth test of
  \<^verbatim>\<open>_parse_argument\<close> treats the empty list as no list, and the signature is the sorted
  one. And with the one name \<open>amp\<close>, which differs from the set of the schedule, the
  constructor returns an entry: the mismatch is raised by \<^verbatim>\<open>define\<close>.\<close>

theorem explicit_arguments_counterexample:
  "set [''amp'', ''dur'', ''amp''] = param_name ` set (parameters (objs store0 0)) \<and>
   ScheduleDef_define (ScheduleDef_init (Some [''amp'', ''dur'', ''amp''])) 0 store0 =
     (Inl ValueError,
      \<lparr>user_arguments' = Some [''amp'', ''dur'', ''amp''], definition' = Some 0, signature' = None\<rparr>,
      metadata_setitem 0 ''publisher'' (Publisher QISKIT) store0) \<and>
   set [''lambda''] = param_name ` set (parameters (objs store_lambda 0)) \<and>
   ScheduleDef_define (ScheduleDef_init (Some [''lambda''])) 0 store_lambda =
     (Inl ValueError,
      \<lparr>user_arguments' = Some [''lambda''], definition' = Some 0, signature' = None\<rparr>,
      metadata_setitem 0 ''publisher'' (Publisher QISKIT) store_lambda) \<and>
   set ([] :: string list) \<noteq> param_name ` set (parameters (objs store0 0)) \<and>
   ScheduleDef_define (ScheduleDef_init (Some [])) 0 store0 =
     (Inr (),
      \<lparr>user_arguments' = Some [], definition' = Some 0,
       signature' = Some [SigParameter ''amp'' POSITIONAL_OR_KEYWORD None,
                          SigParameter ''dur'' POSITIONAL_OR_KEYWORD None]\<rparr>,
      metadata_setitem 0 ''publisher'' (Publisher QISKIT) store0) \<and>
   ScheduleDef_init (Some [''amp'']) =
     \<lparr>user_arguments' = Some [''amp''], definition' = None, signature' = None\<rparr> \<and>
   fst (ScheduleDef_define (ScheduleDef_init (Some [''amp''])) 0 store0)
     = Inl (PulseError ArgumentsDontMatch)"
proof (intro conjI)
  show "set [''amp'', ''dur'', ''amp''] = param_name ` set (parameters (objs store0 0))"
    by auto
  show "set [''lambda''] = param_name ` set (parameters (objs store_lambda 0))"
    by simp
  show "set ([] :: string list) \<noteq> param_name ` set (parameters (objs store0 0))"
    by simp
  show "ScheduleDef_init (Some [''amp'']) =
     \<lparr>user_arguments' = Some [''amp''], definition' = None, signature' = None\<rparr>"
    by (simp add: ScheduleDef_init_def)
  show "fst (ScheduleDef_define (ScheduleDef_init (Some [''amp''])) 0 store0)
     = Inl (PulseError ArgumentsDontMatch)"
    by (simp add: define_store0_mismatch)
qed (rule define_store0_duplicate define_store0_empty define_store_lambda_explicit)+

subsection \<open>\<^verbatim>\<open>get_schedule()\<close> without arguments\<close>

text \<open>C7. For every \<^verbatim>\<open>ScheduleDef\<close> that has been defined with a schedule object \<open>d\<close>
  (whatever the entry was before and whether or not \<^verbatim>\<open>define\<close> raised after storing
  it), \<^verbatim>\<open>get_schedule()\<close> without positional and keyword arguments, in any later store,
  returns the stored object itself: the address held in \<^verbatim>\<open>_definition\<close>, with the entry
  and the store unchanged, so nothing was allocated and nothing substituted.\<close>

theorem get_schedule_no_arguments_is_stored:
  "ScheduleDef_define self0 d w0 = (r, self, w1)
   \<Longrightarrow> definition' self = Some d \<and>
       ScheduleDef_get_schedule self [] [] w = (Inr (Some d), self, w)"
proof -
  assume a: "ScheduleDef_define self0 d w0 = (r, self, w1)"
  let ?w = "if metadata (objs w0 d) ''publisher'' = None
            then metadata_setitem d ''publisher'' (Publisher QISKIT) w0 else w0"
  from parse_argument_cases [of "self0\<lparr>definition' := Some d\<rparr>" ?w]
  have "definition' self = Some d"
    using a unfolding ScheduleDef_define_unfold by auto
  then show ?thesis
    by (simp add: ScheduleDef_get_schedule_def ScheduleDef_get_schedule_body_def)
qed

theorem get_schedule_no_arguments_is_stored_witness:
  "ScheduleDef_get_schedule
     (fst (snd (ScheduleDef_define (ScheduleDef_init None) 0 store0))) [] [] store0
   = (Inr (Some 0), fst (snd (ScheduleDef_define (ScheduleDef_init None) 0 store0)), store0)"
  using get_schedule_no_arguments_is_stored [of "ScheduleDef_init None" 0 store0 "Inr ()"
     "fst (snd (ScheduleDef_define (ScheduleDef_init None) 0 store0))"
     "snd (snd (ScheduleDef_define (ScheduleDef_init None) 0 store0))" store0]
  by (simp add: define_store0)

subsection \<open>Equality against an object without a definition\<close>

text \<open>C10. For every \<^verbatim>\<open>ScheduleDef\<close> and every \<^verbatim>\<open>CallableDef\<close>, defined or not,
  \<^verbatim>\<open>__eq__\<close> against \<^verbatim>\<open>None\<close> or against a value that is no entry raises
  \<^verbatim>\<open>AttributeError\<close>: it returns neither \<^verbatim>\<open>False\<close> nor \<^verbatim>\<open>NotImplemented\<close>.\<close>

theorem eq_without_definition_raises:
  "ScheduleDef_eq schedule_eq self PyNone w = Inl AttributeError \<and>
   ScheduleDef_eq schedule_eq self (PyValue v) w = Inl AttributeError \<and>
   CallableDef_eq cself PyNone = Inl AttributeError \<and>
   CallableDef_eq cself (PyValue v) = Inl AttributeError"
  by (simp add: ScheduleDef_eq_def CallableDef_eq_def)

subsection \<open>The lazy build of a \<^verbatim>\<open>PulseQobjDef\<close>\<close>

lemma fold_Schedule_insert:
  "fold (\<lambda>i. Schedule_insert a t i) ins w =
     w\<lparr>objs := (objs w)(a := (objs w a)\<lparr>instructions :=
            fold (\<lambda>i. insert_at t i) ins (instructions (objs w a))\<rparr>)\<rparr>"
  by (induction ins arbitrary: w) (simp_all add: Schedule_insert_def)

lemma fold_insert_at_pairs:
  "fold (\<lambda>i. insert_at t i) ins xs = fold (\<lambda>(t, i). insert_at t i) (map (\<lambda>i. (t, i)) ins) xs"
  by (induction ins arbitrary: xs) simp_all

lemma fold_update_instructions:
  "fold (\<lambda>q w. w\<lparr>objs := (objs w)(a := (objs w a)\<lparr>instructions := g q (instructions (objs w a))\<rparr>)\<rparr>) src w =
     w\<lparr>objs := (objs w)(a := (objs w a)\<lparr>instructions := fold g src (instructions (objs w a))\<rparr>)\<rparr>"
  by (induction src arbitrary: w) simp_all

lemma fold_converted:
  "fold (\<lambda>q. fold (\<lambda>i. Schedule_insert a (t0 q) i) (conv q)) src w =
     w\<lparr>objs := (objs w)(a := (objs w a)\<lparr>instructions :=
            fold (\<lambda>(t, i). insert_at t i) (converted conv src) (instructions (objs w a))\<rparr>)\<rparr>"
proof -
  have step: "(\<lambda>q. fold (\<lambda>i. Schedule_insert a (t0 q) i) (conv q)) =
     (\<lambda>q w. w\<lparr>objs := (objs w)(a := (objs w a)\<lparr>instructions :=
            fold (\<lambda>(t, i). insert_at t i) (map (\<lambda>i. (t0 q, i)) (conv q)) (instructions (objs w a))\<rparr>)\<rparr>)"
    by (intro ext) (simp only: fold_Schedule_insert fold_insert_at_pairs)
  have flat: "fold (\<lambda>q. fold (\<lambda>(t, i). insert_at t i) (map (\<lambda>i. (t0 q, i)) (conv q))) src xs =
     fold (\<lambda>(t, i). insert_at t i) (converted conv src) xs" for xs
    by (induction src arbitrary: xs) (simp_all add: converted_def)
  show ?thesis
    unfolding step
    using fold_update_instructions
      [of a "\<lambda>q. fold (\<lambda>(t, i). insert_at t i) (map (\<lambda>i. (t0 q, i)) (conv q))" src w]
    by (simp only: flat)
qed

lemma set_insert_at [simp]: "set (insert_at t i xs) = insert (t, i) (set xs)"
  by (induction xs) (auto split: if_splits)

lemma sorted_insert_at: "sorted (map fst xs) \<Longrightarrow> sorted (map fst (insert_at t i xs))"
  by (induction xs) fastforce+

lemma insert_at_insort_key:
  "sorted (map fst xs) \<Longrightarrow>
   insert_at t i (insort_key fst (s, j) xs) = insort_key fst (s, j) (insert_at t i xs)"
  by (induction xs) auto

lemma insert_at_sort_key:
  "insert_at t i (sort_key fst xs) = sort_key fst (xs @ [(t, i)])"
proof (induction xs)
  case Nil
  show ?case by simp
next
  case (Cons y xs)
  have "insert_at t i (sort_key fst (y # xs)) = insert_at t i (insort_key fst y (sort_key fst xs))"
    by simp
  also have "\<dots> = insort_key fst y (insert_at t i (sort_key fst xs))"
    by (cases y) (simp add: insert_at_insort_key)
  also have "\<dots> = sort_key fst ((y # xs) @ [(t, i)])"
    by (simp add: Cons.IH)
  finally show ?case .
qed

lemma fold_insert_at_sort_key:
  "fold (\<lambda>(t, i). insert_at t i) xs (sort_key fst ys) = sort_key fst (ys @ xs)"
proof (induction xs arbitrary: ys)
  case Nil
  show ?case by simp
next
  case (Cons x xs)
  obtain t i where x: "x = (t, i)" by (cases x)
  show ?case
    using Cons.IH [of "ys @ [x]"] by (simp add: x insert_at_sort_key)
qed

lemma fold_insert_at_sorts:
  "fold (\<lambda>(t, i). insert_at t i) xs [] = sort_key fst xs"
  using fold_insert_at_sort_key [of xs "[]"] by simp


lemma build_schedule_unfold:
  assumes "source' self = Some src"
  shows "PulseQobjDef_build_schedule self w =
    (case parse_argument (self\<lparr>definition' := Some (next_addr w)\<rparr>) (built_world self src w) of
       Inl e \<Rightarrow> (Inl e, self\<lparr>definition' := Some (next_addr w)\<rparr>, built_world self src w)
     | Inr self2 \<Rightarrow> (Inr (), self2, built_world self src w))"
  using assms
  by (simp add: PulseQobjDef_build_schedule_def Schedule_new_def Let_def fold_converted
      fold_insert_at_sorts metadata_setitem_def built_world_def built_schedule_def
      split: sum.splits)

lemma build_schedule_no_source:
  assumes "source' self = None"
  shows "PulseQobjDef_build_schedule self w =
    (Inl TypeError, self,
     w\<lparr>objs := (objs w)(next_addr w := \<lparr>sched_name = name' self, metadata = Map.empty, instructions = []\<rparr>),
       next_addr := Suc (next_addr w), log := log w @ [Build]\<rparr>)"
  using assms by (simp add: PulseQobjDef_build_schedule_def Schedule_new_def)

lemma build_schedule_result:
  assumes "source' self = Some src" and "PulseQobjDef_build_schedule self w = (r, self1, w1)"
  shows "w1 = built_world self src w"
    and "definition' self1 = Some (next_addr w)"
    and "source' self1 = Some src" and "converter' self1 = converter' self"
    and "name' self1 = name' self" and "user_arguments' self1 = user_arguments' self"
    and "r \<noteq> Inr () \<Longrightarrow> signature' self1 = signature' self"
  using assms(2) parse_argument_cases [of "self\<lparr>definition' := Some (next_addr w)\<rparr>" "built_world self src w"]
  unfolding build_schedule_unfold [OF assms(1)]
  by (auto simp: assms(1))


lemma built_world_sel [simp]:
  "log (built_world self src w) = log w @ [Build]"
  "next_addr (built_world self src w) = Suc (next_addr w)"
  "objs (built_world self src w) (next_addr w) = built_schedule (name' self) (converter' self) src"
  "b \<noteq> next_addr w \<Longrightarrow> objs (built_world self src w) b = objs w b"
  by (simp_all add: built_world_def)

lemma builds_built_world [simp]: "builds (built_world self src w) = Suc (builds w)"
  by (simp add: builds_def)


lemma assign_parameters_copy:
  "assign_parameters d vd False w = (r, w1) \<Longrightarrow>
     r = next_addr w \<and> next_addr w1 = Suc (next_addr w) \<and> log w1 = log w \<and>
     objs w1 = (objs w)(next_addr w := assign_schedule vd (objs w d))"
  by (auto simp: assign_parameters_def)






lemma PulseQobjDef_define_sel [simp]:
  "source' (PulseQobjDef_define self src) = Some src"
  "definition' (PulseQobjDef_define self src) = definition' self"
  "signature' (PulseQobjDef_define self src) = signature' self"
  "user_arguments' (PulseQobjDef_define self src) = user_arguments' self"
  "converter' (PulseQobjDef_define self src) = converter' self"
  "name' (PulseQobjDef_define self src) = name' self"
  by (simp_all add: PulseQobjDef_define_def)



lemma PulseQobjDef_init_sel [simp]:
  "definition' (PulseQobjDef_init dc arguments conv nm) = None"
  "signature' (PulseQobjDef_init dc arguments conv nm) = None"
  "user_arguments' (PulseQobjDef_init dc arguments conv nm) = arguments"
  "source' (PulseQobjDef_init dc arguments conv nm) = None"
  "name' (PulseQobjDef_init dc arguments conv nm) = nm"
  "converter' (PulseQobjDef_init dc arguments conv nm) = (case conv of Some c \<Rightarrow> c | None \<Rightarrow> dc)"
  by (simp_all add: PulseQobjDef_init_def ScheduleDef_init_def schedule_def.defs pulse_qobj_def.defs)


lemma insert_at_least:
  "\<forall>x \<in> set xs. t < fst x \<Longrightarrow> insert_at t i xs = (t, i) # xs"
  by (cases xs) auto

lemma insert_at_after:
  "\<forall>x \<in> set ys. fst x \<le> t \<Longrightarrow> insert_at t i (ys @ xs) = ys @ insert_at t i xs"
  by (induction ys) auto

lemma fold_insert_at_same:
  "\<forall>x \<in> set ys. fst x \<le> t \<Longrightarrow> \<forall>x \<in> set xs. t < fst x \<Longrightarrow>
   fold (\<lambda>(t, i). insert_at t i) (map (Pair t) is) (ys @ xs) = ys @ map (Pair t) is @ xs"
proof (induction "is" arbitrary: ys)
  case Nil
  show ?case by simp
next
  case (Cons i "is")
  have "insert_at t i (ys @ xs) = (ys @ [(t, i)]) @ xs"
    using Cons.prems by (simp add: insert_at_after insert_at_least)
  moreover have "\<forall>x \<in> set (ys @ [(t, i)]). fst x \<le> t"
    using Cons.prems(1) by auto
  ultimately show ?case
    using Cons.IH [of "ys @ [(t, i)]"] Cons.prems(2) by simp
qed

lemma sort_two_offsets:
  fixes s t :: nat and xs ys :: "instruction list"
  assumes "s < t"
  shows "sort_key fst (map (Pair t) xs @ map (Pair s) ys) = map (Pair s) ys @ map (Pair t) xs"
proof -
  have one: "fold (\<lambda>(t, i). insert_at t i) (map (Pair t) xs) [] = map (Pair t) xs"
    using fold_insert_at_same [of "[]" t "[]" xs] by simp
  have two: "fold (\<lambda>(t, i). insert_at t i) (map (Pair s) ys) (map (Pair t) xs) = map (Pair s) ys @ map (Pair t) xs"
    using fold_insert_at_same [of "[]" s "map (Pair t) xs" ys] assms by auto
  have "sort_key fst (map (Pair t) xs @ map (Pair s) ys)
          = fold (\<lambda>(t, i). insert_at t i) (map (Pair t) xs @ map (Pair s) ys) []"
    by (simp only: fold_insert_at_sorts)
  also have "\<dots> = map (Pair s) ys @ map (Pair t) xs"
    by (simp only: fold_append comp_apply one two)
  finally show ?thesis .
qed

text \<open>C2. For every \<^verbatim>\<open>PulseQobjDef\<close> defined with a list of serialized
  instructions, \<^verbatim>\<open>_build_schedule\<close> stores a new schedule object whose instructions are
  the result of inserting, for every serialized instruction in the order of the source,
  each instruction the converter yields for it at the start offset \<open>t0\<close> of that
  serialized instruction. With the stable insertion of the schedule this is the list of
  converted instructions sorted by start offset, ties in the order of the source; in
  particular a source of two serialized instructions at the offsets 10 and 5 gives the
  instructions of the second, at 5, followed by those of the first, at 10. The publisher
  of the built schedule is \<open>BACKEND_PROVIDER\<close>, written without a test, whether or not
  the derivation of the signature raises afterwards.\<close>

theorem build_inserts_at_offsets:
  assumes "PulseQobjDef_build_schedule (PulseQobjDef_define self0 src) w = (r, self1, w1)"
  shows "definition' self1 = Some (next_addr w) \<and>
         instructions (objs w1 (next_addr w))
           = fold (\<lambda>(t, i). insert_at t i) (converted (converter' self0) src) [] \<and>
         instructions (objs w1 (next_addr w)) = sort_key fst (converted (converter' self0) src) \<and>
         (\<forall>q1 q2. src = [q1, q2] \<and> t0 q1 = 10 \<and> t0 q2 = 5 \<longrightarrow>
            instructions (objs w1 (next_addr w))
              = map (Pair 5) (converter' self0 q2) @ map (Pair 10) (converter' self0 q1)) \<and>
         metadata (objs w1 (next_addr w)) ''publisher'' = Some (Publisher BACKEND_PROVIDER)"
proof -
  have s: "source' (PulseQobjDef_define self0 src) = Some src" by simp
  note res = build_schedule_result [OF s assms]
  have o: "objs w1 (next_addr w) = built_schedule (name' self0) (converter' self0) src"
    using res(1) by simp
  have i: "instructions (objs w1 (next_addr w)) = sort_key fst (converted (converter' self0) src)"
    using o by (simp add: built_schedule_def)
  have two: "instructions (objs w1 (next_addr w))
              = map (Pair 5) (converter' self0 q2) @ map (Pair 10) (converter' self0 q1)"
    if "src = [q1, q2] \<and> t0 q1 = 10 \<and> t0 q2 = 5" for q1 q2
    using that sort_two_offsets [of 5 10 "converter' self0 q1" "converter' self0 q2"]
    by (simp add: i converted_def)
  show ?thesis
    using res(2) i two o by (simp add: fold_insert_at_sorts built_schedule_def)
qed

theorem build_inserts_at_offsets_witness:
  "instructions (objs (snd (snd (PulseQobjDef_build_schedule deferred store0))) 1)
     = [(5, Instruction ''early'' []), (10, Instruction ''late'' [])] \<and>
   metadata (objs (snd (snd (PulseQobjDef_build_schedule deferred store0))) 1) ''publisher''
     = Some (Publisher BACKEND_PROVIDER)"
proof -
  let ?self0 = "PulseQobjDef_init convert_one None None (Some ''cal'')"
  let ?b = "PulseQobjDef_build_schedule deferred store0"
  have a: "PulseQobjDef_build_schedule (PulseQobjDef_define ?self0 source_10_5) store0
             = (fst ?b, fst (snd ?b), snd (snd ?b))"
    by (simp add: deferred_def)
  have n: "next_addr store0 = 1" by (simp add: store0_def)
  from build_inserts_at_offsets [OF a] show ?thesis
    by (simp add: n source_10_5_def convert_one_def converted_def)
qed

subsection \<open>Equality of a \<^verbatim>\<open>PulseQobjDef\<close> and the publisher tag\<close>

lemma build_schedule_builds:
  assumes "PulseQobjDef_build_schedule self w = (r, self1, w1)"
  shows "builds w1 = Suc (builds w)"
proof (cases "source' self")
  case None
  from build_schedule_no_source [OF this, of w] assms show ?thesis
    by (auto simp: builds_def)
next
  case (Some src)
  from build_schedule_result(1) [OF this assms] show ?thesis by simp
qed

lemma build_schedule_no_arguments:
  assumes "source' self = Some src" and "user_arguments' self = None"
    and "list_all valid_name
           (map param_name (parameters (built_schedule (name' self) (converter' self) src)))"
  shows "fst (PulseQobjDef_build_schedule self w) = Inr ()"
proof -
  let ?self1 = "self\<lparr>definition' := Some (next_addr w)\<rparr>"
  have a: "user_arguments' ?self1 = None \<or> user_arguments' ?self1 = Some []"
    and b: "definition' ?self1 = Some (next_addr w)"
    using assms(2) by simp_all
  have v: "list_all valid_name
             (map param_name (parameters (objs (built_world self src w) (next_addr w))))"
    using assms(3) by (simp add: built_world_def)
  show ?thesis
    unfolding build_schedule_unfold [OF assms(1)] parse_argument_sorted [OF a b v] by simp
qed

text \<open>C8, as amended. For every pair of \<^verbatim>\<open>PulseQobjDef\<close> entries, \<^verbatim>\<open>__eq__\<close>
  compares the two raw sources and leaves the entry and the store as they were, so it
  builds neither entry. For every \<^verbatim>\<open>PulseQobjDef\<close> without a definition that is compared
  against a \<^verbatim>\<open>ScheduleDef\<close> holding a schedule object, the comparison runs
  \<^verbatim>\<open>_build_schedule\<close> exactly once; when the build raises nothing, the result is the
  collaborator's equality of the built schedule and the other entry's schedule; when the
  build raises, the comparison raises the same error and compares nothing.\<close>

theorem PulseQobjDef_eq_compares:
  "PulseQobjDef_eq schedule_eq self (PyPulseQobjDef other) w
     = (Inr (source' self = source' other), self, w) \<and>
   (definition' self = None \<and> source' self = Some src \<and> definition' inl = Some b \<and>
    PulseQobjDef_build_schedule self w = (Inr (), self1, w1) \<longrightarrow>
      PulseQobjDef_eq schedule_eq self (PyScheduleDef inl) w
        = (Inr (schedule_eq (objs w1 (next_addr w)) (objs w1 b)), self1, w1) \<and>
      builds w1 = Suc (builds w) \<and>
      objs w1 (next_addr w) = built_schedule (name' self) (converter' self) src) \<and>
   (definition' self = None \<and> PulseQobjDef_build_schedule self w = (Inl e, self1, w1) \<longrightarrow>
      PulseQobjDef_eq schedule_eq self (PyScheduleDef inl) w = (Inl e, self1, w1) \<and>
      builds w1 = Suc (builds w))"
proof (intro conjI impI)
  show "PulseQobjDef_eq schedule_eq self (PyPulseQobjDef other) w
     = (Inr (source' self = source' other), self, w)"
    by (simp add: PulseQobjDef_eq_def)
next
  assume a: "definition' self = None \<and> source' self = Some src \<and> definition' inl = Some b \<and>
    PulseQobjDef_build_schedule self w = (Inr (), self1, w1)"
  then have b: "PulseQobjDef_build_schedule self w = (Inr (), self1, w1)" and s: "source' self = Some src"
    by simp_all
  note res = build_schedule_result [OF s b]
  show "PulseQobjDef_eq schedule_eq self (PyScheduleDef inl) w
        = (Inr (schedule_eq (objs w1 (next_addr w)) (objs w1 b)), self1, w1)"
    using a res(2) by (simp add: PulseQobjDef_eq_def schedule_defval_def)
  show "builds w1 = Suc (builds w)"
    using b by (rule build_schedule_builds)
  show "objs w1 (next_addr w) = built_schedule (name' self) (converter' self) src"
    using res(1) by simp
next
  assume a: "definition' self = None \<and> PulseQobjDef_build_schedule self w = (Inl e, self1, w1)"
  show "PulseQobjDef_eq schedule_eq self (PyScheduleDef inl) w = (Inl e, self1, w1)"
    using a by (simp add: PulseQobjDef_eq_def)
  show "builds w1 = Suc (builds w)"
    using a build_schedule_builds by blast
qed


lemma deferred_sel [simp]:
  "definition' deferred = None" "source' deferred = Some source_10_5"
  "user_arguments' deferred = None" "name' deferred = Some ''cal''"
  "converter' deferred = convert_one"
  by (simp_all add: deferred_def)

lemma deferred_x_sel [simp]:
  "definition' deferred_x = None" "source' deferred_x = Some []"
  "user_arguments' deferred_x = Some [''x'']" "name' deferred_x = None"
  "converter' deferred_x = convert_one"
  by (simp_all add: deferred_x_def)

lemma inline_sel [simp]: "definition' inline = Some 0"
  by (simp add: inline_def)

lemma next_addr_store0 [simp]: "next_addr store0 = 1" and builds_store0 [simp]: "builds store0 = 0"
  by (simp_all add: store0_def builds_def)

lemma instructions_xgate [simp]: "instructions xgate = [(0, play)]"
  by (simp add: xgate_def)

theorem PulseQobjDef_eq_compares_witness:
  "PulseQobjDef_eq (\<lambda>s1 s2. instructions s1 = instructions s2) deferred (PyScheduleDef inline) store0
     = (Inr False, fst (snd (PulseQobjDef_build_schedule deferred store0)),
        snd (snd (PulseQobjDef_build_schedule deferred store0))) \<and>
   builds (snd (snd (PulseQobjDef_build_schedule deferred store0))) = 1"
proof -
  let ?b = "PulseQobjDef_build_schedule deferred store0"
  have ok: "fst ?b = Inr ()"
    by (rule build_schedule_no_arguments [of deferred source_10_5])
       (simp_all add: built_schedule_def source_10_5_def converted_def convert_one_def
          parameters_def instruction_parameters_def)
  have h: "definition' deferred = None \<and> source' deferred = Some source_10_5 \<and>
      definition' inline = Some 0 \<and> ?b = (Inr (), fst (snd ?b), snd (snd ?b))"
    using ok by (simp add: prod_eq_iff)
  from PulseQobjDef_eq_compares
         [of "\<lambda>s1 s2. instructions s1 = instructions s2" deferred deferred store0 source_10_5
             inline 0 "fst (snd ?b)" "snd (snd ?b)"] h
  have "PulseQobjDef_eq (\<lambda>s1 s2. instructions s1 = instructions s2) deferred (PyScheduleDef inline) store0
        = (Inr (instructions (objs (snd (snd ?b)) (next_addr store0))
                  = instructions (objs (snd (snd ?b)) 0)), fst (snd ?b), snd (snd ?b))"
    and "builds (snd (snd ?b)) = Suc (builds store0)"
    and "objs (snd (snd ?b)) (next_addr store0) = built_schedule (name' deferred) (converter' deferred) source_10_5"
    by blast+
  moreover have "snd (snd ?b) = built_world deferred source_10_5 store0"
    by (rule build_schedule_result(1) [of deferred source_10_5 store0 "fst ?b" "fst (snd ?b)"]) simp_all
  ultimately show ?thesis
    by (simp add: built_schedule_def source_10_5_def converted_def convert_one_def)
qed

text \<open>The claim as stated fails where the derivation of the signature that ends the build
  raises: an entry with the explicit argument name \<open>x\<close> and an empty source has no
  definition, is compared against a defined \<^verbatim>\<open>ScheduleDef\<close>, and the comparison raises
  the \<^verbatim>\<open>PulseError\<close> of \<^verbatim>\<open>_parse_argument\<close> instead of comparing the schedules.\<close>

theorem PulseQobjDef_eq_counterexample:
  "definition' deferred_x = None \<and> source' deferred_x = Some [] \<and> definition' inline = Some 0 \<and>
   fst (PulseQobjDef_eq (\<lambda>s1 s2. instructions s1 = instructions s2) deferred_x
          (PyScheduleDef inline) store0) = Inl (PulseError ArgumentsDontMatch)"
proof -
  have p: "parameters (objs (built_world deferred_x [] store0) (Suc 0)) = []"
    using built_world_sel(3) [of deferred_x "[]" store0]
    by (simp add: built_schedule_def converted_def parameters_def)
  have "PulseQobjDef_build_schedule deferred_x store0 =
      (Inl (PulseError ArgumentsDontMatch), deferred_x\<lparr>definition' := Some 1\<rparr>,
       built_world deferred_x [] store0)"
    by (simp add: build_schedule_unfold [of deferred_x "[]"]
          parse_argument_explicit_unfold [of _ "[''x'']"] p)
  then show ?thesis
    by (simp add: PulseQobjDef_eq_def)
qed


lemma publisher_of_metadata_setitem:
  "publisher_of (metadata_setitem d ''publisher'' v w) a =
     (if a = d then Some v else publisher_of w a)"
  by (simp add: publisher_of_def metadata_setitem_def)

lemma define_keeps_publisher:
  assumes "ScheduleDef_define self d w = (r, self1, w1)" and "publisher_of w a = Some t"
  shows "publisher_of w1 a = Some t"
proof -
  have "w1 = (if metadata (objs w d) ''publisher'' = None
         then metadata_setitem d ''publisher'' (Publisher QISKIT) w else w)"
    using assms(1) by (rule define_world)
  then show ?thesis
    using assms(2) by (auto simp: publisher_of_metadata_setitem) (simp add: publisher_of_def)
qed

lemma call_function_body:
  assumes "call_function f kwargs w = (Inr s, w1)"
  shows "\<exists>ls wb. fn_body f ls w = (s, wb) \<and> w1 = wb\<lparr>log := log w @ [Invoke (fn_id f) ls]\<rparr>"
  using assms
  by (auto simp: call_function_def Let_def split: if_splits sum.splits prod.splits)

lemma get_schedule_keeps_publisher:
  assumes "CallableDef_get_schedule cself args kwargs w = (Inr s, w2)"
    and "callable_definition' cself = Some f"
  shows "\<exists>ls wb. fn_body f ls w = (s, wb) \<and>
           (\<forall>a t. publisher_of wb a = Some t \<longrightarrow> publisher_of w2 a = Some t)"
proof -
  obtain sg bound w1 where c: "call_function f (apply_defaults sg bound) w = (Inr s, w1)"
    and w2: "w2 = (if metadata (objs w1 s) ''publisher'' = None
                   then metadata_setitem s ''publisher'' (Publisher QISKIT) w1 else w1)"
    using assms
    by (auto simp: CallableDef_get_schedule_def Let_def split: option.splits sum.splits prod.splits)
  from call_function_body [OF c] obtain ls wb
    where b: "fn_body f ls w = (s, wb)" and w1: "w1 = wb\<lparr>log := log w @ [Invoke (fn_id f) ls]\<rparr>"
    by blast
  have "publisher_of w2 a = Some t" if "publisher_of wb a = Some t" for a t
  proof -
    have "publisher_of w1 a = Some t" using that w1 by (simp add: publisher_of_def)
    then show ?thesis
      unfolding w2 by (auto simp: publisher_of_metadata_setitem) (simp add: publisher_of_def)
  qed
  with b show ?thesis by blast
qed

lemma build_keeps_objects:
  assumes "PulseQobjDef_build_schedule self w = (r, self1, w1)" and "a < next_addr w"
  shows "objs w1 a = objs w a"
proof (cases "source' self")
  case None
  from build_schedule_no_source [OF this, of w] assms show ?thesis by auto
next
  case (Some src)
  from build_schedule_result(1) [OF this assms(1)] assms(2) show ?thesis by simp
qed

text \<open>C9. No entry operation overwrites a publisher that a schedule object already
  carries. \<^verbatim>\<open>ScheduleDef.define\<close> keeps the publisher of every object, the defined one
  included. \<^verbatim>\<open>CallableDef.get_schedule\<close> keeps every publisher found in the store that
  the function's body left, the returned schedule's included. \<^verbatim>\<open>_build_schedule\<close>
  writes its tag without a test, but to the schedule object it has just created: every
  object allocated before the build is left exactly as it was.\<close>

theorem publisher_written_at_most_once:
  "(ScheduleDef_define self d w = (r, self1, w1) \<and> publisher_of w a = Some t
      \<longrightarrow> publisher_of w1 a = Some t) \<and>
   (CallableDef_get_schedule cself args kwargs w = (Inr s, w2) \<and> callable_definition' cself = Some f
      \<longrightarrow> (\<exists>ls wb. fn_body f ls w = (s, wb) \<and>
             (\<forall>a t. publisher_of wb a = Some t \<longrightarrow> publisher_of w2 a = Some t))) \<and>
   (PulseQobjDef_build_schedule pself w = (r', pself1, w3) \<and> a < next_addr w \<and>
    publisher_of w a = Some t
      \<longrightarrow> publisher_of w3 a = Some t \<and> objs w3 a = objs w a)"
proof (intro conjI impI)
  assume "ScheduleDef_define self d w = (r, self1, w1) \<and> publisher_of w a = Some t"
  then show "publisher_of w1 a = Some t"
    using define_keeps_publisher by blast
next
  assume "CallableDef_get_schedule cself args kwargs w = (Inr s, w2) \<and> callable_definition' cself = Some f"
  then show "\<exists>ls wb. fn_body f ls w = (s, wb) \<and>
             (\<forall>a t. publisher_of wb a = Some t \<longrightarrow> publisher_of w2 a = Some t)"
    using get_schedule_keeps_publisher by blast
next
  assume h: "PulseQobjDef_build_schedule pself w = (r', pself1, w3) \<and> a < next_addr w \<and>
    publisher_of w a = Some t"
  then show o: "objs w3 a = objs w a" using build_keeps_objects by blast
  then show "publisher_of w3 a = Some t" using h by (simp add: publisher_of_def)
qed


lemma publisher_store_tagged [simp]:
  "publisher_of store_tagged 0 = Some (Publisher EXPERIMENT_SERVICE)"
  by (simp add: store_tagged_def publisher_of_metadata_setitem)

theorem publisher_written_at_most_once_witness:
  "publisher_of (snd (snd (ScheduleDef_define (ScheduleDef_init None) 0 store_tagged))) 0
     = Some (Publisher EXPERIMENT_SERVICE) \<and>
   publisher_of (snd (snd (PulseQobjDef_build_schedule deferred store_tagged))) 0
     = Some (Publisher EXPERIMENT_SERVICE)"
proof -
  let ?d = "ScheduleDef_define (ScheduleDef_init None) 0 store_tagged"
  let ?b = "PulseQobjDef_build_schedule deferred store_tagged"
  have n: "0 < next_addr store_tagged"
    by (simp add: store_tagged_def metadata_setitem_def)
  have h1: "?d = (fst ?d, fst (snd ?d), snd (snd ?d)) \<and>
            publisher_of store_tagged 0 = Some (Publisher EXPERIMENT_SERVICE)"
    by simp
  have h3: "?b = (fst ?b, fst (snd ?b), snd (snd ?b)) \<and> 0 < next_addr store_tagged \<and>
            publisher_of store_tagged 0 = Some (Publisher EXPERIMENT_SERVICE)"
    using n by simp
  from publisher_written_at_most_once
         [where self = "ScheduleDef_init None" and d = 0 and w = store_tagged and r = "fst ?d"
            and ?self1.0 = "fst (snd ?d)" and ?w1.0 = "snd (snd ?d)" and a = 0
            and t = "Publisher EXPERIMENT_SERVICE" and pself = deferred and r' = "fst ?b"
            and ?pself1.0 = "fst (snd ?b)" and ?w3.0 = "snd (snd ?b)"]
       h1 h3
  show ?thesis by blast
qed

subsection \<open>Partial binding by \<^verbatim>\<open>ScheduleDef.get_schedule\<close>\<close>

lemma fill_value_dict_apply:
  "fill_value_dict ps arguments vd p =
     (if p \<in> set ps then (case map_of arguments (param_name p) of Some v \<Rightarrow> Some v | None \<Rightarrow> vd p)
      else vd p)"
  by (induction ps arbitrary: vd) (auto split: option.splits)

lemma operand_parameters_assign:
  "set (operand_parameters (assign_operand vd x)) = {p \<in> set (operand_parameters x). vd p = None}"
  by (cases x) (auto split: option.splits)

lemma instruction_parameters_assign:
  "set (instruction_parameters (assign_instruction vd i))
     = {p \<in> set (instruction_parameters i). vd p = None}"
  by (auto simp: instruction_parameters_def assign_instruction_def operand_parameters_assign)

lemma set_parameters:
  "set (parameters t) = (\<Union>x \<in> set (instructions t). set (instruction_parameters (snd x)))"
  by (auto simp: parameters_def)

lemma parameters_assign_schedule:
  "set (parameters (assign_schedule vd s)) = {p \<in> set (parameters s). vd p = None}"
proof -
  have "set (parameters (assign_schedule vd s)) =
      (\<Union>y \<in> set (instructions s). set (instruction_parameters (assign_instruction vd (snd y))))"
    by (simp add: set_parameters assign_schedule_def case_prod_unfold)
  also have "\<dots> = (\<Union>y \<in> set (instructions s). {p \<in> set (instruction_parameters (snd y)). vd p = None})"
    by (simp only: instruction_parameters_assign)
  also have "\<dots> = {p \<in> (\<Union>y \<in> set (instructions s). set (instruction_parameters (snd y))). vd p = None}"
    by blast
  finally show ?thesis
    by (simp only: set_parameters)
qed

lemma map_of_None_iff: "map_of kvs k = None \<longleftrightarrow> k \<notin> fst ` set kvs"
  by (simp add: map_of_eq_None_iff)

text \<open>C4. For every \<^verbatim>\<open>ScheduleDef\<close> that holds an allocated schedule object and a
  signature, and every call \<^verbatim>\<open>get_schedule(*args, **kwargs)\<close> with at least one argument
  that \<^verbatim>\<open>bind_partial\<close> binds against the signature: the result is a new schedule
  object, at an address that was not allocated before and differs from the stored one; it
  is the stored value in which exactly the parameters whose names are keys of the bound
  arguments are replaced by the bound values; its declared parameters are the parameters
  of the stored value whose names are not bound; the entry is unchanged, and so is every
  object allocated before the call, the stored original included.\<close>

theorem get_schedule_partial_binding:
  assumes "definition' self = Some d" and "signature' self = Some sg"
    and "args \<noteq> [] \<or> kwargs \<noteq> []" and "bind_partial sg args kwargs = Inr bound"
    and "d < next_addr w"
    and "ScheduleDef_get_schedule self args kwargs w = (r, self1, w1)"
  shows "r = Inr (Some (next_addr w)) \<and> self1 = self \<and> next_addr w \<noteq> d \<and>
         objs w1 (next_addr w) =
           assign_schedule (\<lambda>p. if p \<in> set (parameters (objs w d))
                                 then map_of bound (param_name p) else None) (objs w d) \<and>
         set (parameters (objs w1 (next_addr w)))
           = {p \<in> set (parameters (objs w d)). param_name p \<notin> fst ` set bound} \<and>
         (\<forall>a < next_addr w. objs w1 a = objs w a) \<and> objs w1 d = objs w d"
proof -
  let ?vd = "fill_value_dict (parameters (objs w d)) bound Map.empty"
  have vd: "?vd = (\<lambda>p. if p \<in> set (parameters (objs w d))
                         then map_of bound (param_name p) else None)"
    by (rule ext) (simp add: fill_value_dict_apply split: option.splits)
  have g: "ScheduleDef_get_schedule self args kwargs w =
             (Inr (Some (next_addr w)), self,
              w\<lparr>objs := (objs w)(next_addr w := assign_schedule ?vd (objs w d)),
                next_addr := Suc (next_addr w)\<rparr>)"
    using assms(1-4)
    by (auto simp: ScheduleDef_get_schedule_def ScheduleDef_get_schedule_body_def
        ScheduleDef_get_signature_def assign_parameters_def Let_def)
  have r: "r = Inr (Some (next_addr w))" and s: "self1 = self"
    and w1: "w1 = w\<lparr>objs := (objs w)(next_addr w := assign_schedule ?vd (objs w d)),
                next_addr := Suc (next_addr w)\<rparr>"
    using g assms(6) by simp_all
  have o: "objs w1 (next_addr w) = assign_schedule ?vd (objs w d)"
    by (simp add: w1)
  have p: "set (parameters (objs w1 (next_addr w)))
           = {p \<in> set (parameters (objs w d)). param_name p \<notin> fst ` set bound}"
    unfolding o parameters_assign_schedule vd by (auto simp: map_of_None_iff)
  have old: "\<forall>a < next_addr w. objs w1 a = objs w a"
    by (simp add: w1)
  show ?thesis
    using r s o p old assms(5) unfolding vd by auto
qed


theorem get_schedule_partial_binding_witness:
  "fst (ScheduleDef_get_schedule inline [IntV 5] [] store0) = Inr (Some 1) \<and>
   set (parameters (objs (snd (snd (ScheduleDef_get_schedule inline [IntV 5] [] store0))) 1)) = {dur} \<and>
   objs (snd (snd (ScheduleDef_get_schedule inline [IntV 5] [] store0))) 0 = xgate"
proof -
  let ?g = "ScheduleDef_get_schedule inline [IntV 5] [] store0"
  let ?sg = "[SigParameter ''amp'' POSITIONAL_OR_KEYWORD None,
              SigParameter ''dur'' POSITIONAL_OR_KEYWORD None]"
  have a: "definition' inline = Some 0" and b: "signature' inline = Some ?sg"
    by (simp_all add: inline_def)
  have c: "[IntV 5] \<noteq> [] \<or> ([] :: (string \<times> pyval) list) \<noteq> []"
    by simp
  have d: "bind_partial ?sg [IntV 5] [] = Inr [(''amp'', IntV 5)]"
    by (simp add: bind_partial_def bind_common_def)
  have e: "0 < next_addr store0"
    by simp
  have f: "?g = (fst ?g, fst (snd ?g), snd (snd ?g))"
    by simp
  have n: "{p. (p = dur \<or> p = amp) \<and> param_name p \<noteq> ''amp''} = {dur}"
    by auto
  from get_schedule_partial_binding [OF a b c d e f]
  have "fst ?g = Inr (Some (next_addr store0))"
    and "set (parameters (objs (snd (snd ?g)) (next_addr store0)))
           = {p \<in> set (parameters (objs store0 0)). param_name p \<notin> fst ` set [(''amp'', IntV 5)]}"
    and "objs (snd (snd ?g)) 0 = objs store0 0"
    by blast+
  then show ?thesis
    by (simp add: n)
qed

end
